theory Spec2Isabelle
  imports Complex_Main
begin

section \<open>Python values and exceptions\<close>

text \<open>
  The script \<^verbatim>\<open>backend/python/imslp_enrich.py\<close> handles untyped data: attributes of
  wiki-client objects and decoded JSON. A value is \<open>None\<close>, a bool, an int, a str, a list
  or a dict with string keys (an association list, keys distinct, in insertion order).
  Strings are byte strings (UTF-8). Floating-point JSON numbers are not modelled.
\<close>

datatype pyval =
    PNone
  | PBool bool
  | PInt int
  | PStr string
  | PList "pyval list"
  | PDict "(string \<times> pyval) list"

text \<open>
  An exception carries its class and its message. \<open>str_exn\<close> is Python's \<open>str(e)\<close>.
  \<open>Exception\<close> stands for every class the script does not tell apart
  (transport errors, errors of the wiki client).
\<close>

datatype exn =
    AttributeError string
  | TypeError string
  | ValueError string
  | KeyError string
  | OverflowError string
  | Exception string

fun str_exn :: "exn \<Rightarrow> string" where
  "str_exn (AttributeError m) = m"
| "str_exn (TypeError m) = m"
| "str_exn (ValueError m) = m"
| "str_exn (KeyError m) = m"
| "str_exn (OverflowError m) = m"
| "str_exn (Exception m) = m"

text \<open>Python truthiness: what \<open>if x\<close>, \<open>not x\<close> and \<open>x or y\<close> test.\<close>

fun truthy :: "pyval \<Rightarrow> bool" where
  "truthy PNone = False"
| "truthy (PBool b) = b"
| "truthy (PInt i) = (i \<noteq> 0)"
| "truthy (PStr s) = (s \<noteq> [])"
| "truthy (PList xs) = (xs \<noteq> [])"
| "truthy (PDict kvs) = (kvs \<noteq> [])"

definition py_or :: "pyval \<Rightarrow> pyval \<Rightarrow> pyval" where
  "py_or a b = (if truthy a then a else b)"

fun type_name :: "pyval \<Rightarrow> string" where
  "type_name PNone = ''NoneType''"
| "type_name (PBool b) = ''bool''"
| "type_name (PInt i) = ''int''"
| "type_name (PStr s) = ''str''"
| "type_name (PList xs) = ''list''"
| "type_name (PDict kvs) = ''dict''"

definition no_attribute :: "pyval \<Rightarrow> string \<Rightarrow> exn" where
  "no_attribute v a =
     AttributeError ([CHR 0x27] @ type_name v @ [CHR 0x27] @ '' object has no attribute ''
                     @ [CHR 0x27] @ a @ [CHR 0x27])"

text \<open>\<open>d.get(k)\<close> and \<open>d.get(k, default)\<close>: only a dict has the method.\<close>

definition dict_get :: "(string \<times> pyval) list \<Rightarrow> string \<Rightarrow> pyval \<Rightarrow> pyval" where
  "dict_get kvs k d = (case map_of kvs k of None \<Rightarrow> d | Some v \<Rightarrow> v)"

fun py_get :: "pyval \<Rightarrow> string \<Rightarrow> pyval \<Rightarrow> exn + pyval" where
  "py_get (PDict kvs) k d = Inr (dict_get kvs k d)"
| "py_get v k d = Inl (no_attribute v ''get'')"

section \<open>Floats\<close>

text \<open>
  A Python float is an IEEE 754 binary64 number. \<open>Finite m e\<close> is the number
  \<open>m * 2 ^ e\<close>; the sign of a zero is not kept (no operation of the script tells the two
  zeros apart). \<open>fmul\<close> is the multiplication of floats: the exact product rounded to
  the nearest float (53 bits, exponent at least -1074), ties to even, a result of
  magnitude \<open>2 ^ 1024\<close> or more being an infinity.
\<close>

datatype pyfloat = Finite int int | PosInf | NegInf | NaN

definition valof :: "pyfloat \<Rightarrow> real" where
  "valof x =
     (case x of
        Finite m e \<Rightarrow> (if 0 \<le> e then of_int m * 2 ^ nat e else of_int m / 2 ^ nat (- e))
      | _ \<Rightarrow> 0)"

function bit_length :: "int \<Rightarrow> nat" where
  "bit_length n = (if n \<le> 0 then 0 else Suc (bit_length (n div 2)))"
  by pat_completeness auto
termination
  by (relation "measure nat") auto

declare bit_length.simps [simp del]

definition round_half_even :: "int \<Rightarrow> nat \<Rightarrow> int" where
  "round_half_even m s =
     (if s = 0 then m
      else let q = m div 2 ^ s; r = m mod 2 ^ s; h = 2 ^ (s - 1)
           in if h < r \<or> (r = h \<and> odd q) then q + 1 else q)"

definition round_double :: "int \<Rightarrow> int \<Rightarrow> pyfloat" where
  "round_double m e =
     (if m = 0 then Finite 0 0
      else
        let n = int (bit_length \<bar>m\<bar>);
            s = max (n - 53) (- 1074 - e);
            m1 = (if s \<le> 0 then m else round_half_even m (nat s));
            e1 = (if s \<le> 0 then e else e + s)
        in if 1024 < int (bit_length \<bar>m1\<bar>) + e1
           then (if 0 < m then PosInf else NegInf)
           else Finite m1 e1)"

fun fmul :: "pyfloat \<Rightarrow> pyfloat \<Rightarrow> pyfloat" where
  "fmul NaN y = NaN"
| "fmul x NaN = NaN"
| "fmul (Finite m1 e1) (Finite m2 e2) = round_double (m1 * m2) (e1 + e2)"
| "fmul (Finite m e) PosInf = (if m = 0 then NaN else if 0 < m then PosInf else NegInf)"
| "fmul (Finite m e) NegInf = (if m = 0 then NaN else if 0 < m then NegInf else PosInf)"
| "fmul PosInf (Finite m e) = (if m = 0 then NaN else if 0 < m then PosInf else NegInf)"
| "fmul NegInf (Finite m e) = (if m = 0 then NaN else if 0 < m then NegInf else PosInf)"
| "fmul PosInf PosInf = PosInf"
| "fmul PosInf NegInf = NegInf"
| "fmul NegInf PosInf = NegInf"
| "fmul NegInf NegInf = PosInf"

section \<open>The HTTP transport and the clock\<close>

text \<open>
  \<open>requests.get\<close> and \<open>time.sleep\<close> are the script's effects. The state records every
  GET issued and every sleep, in order. The transport is a parameter: \<open>nt i rq\<close> is what
  the GET number \<open>i\<close> of the run (counted from 0) does when it asks \<open>rq\<close>, either raising
  or returning a response.
\<close>

record request =
  rq_url :: string
  rq_params :: "(string \<times> string) list"
  rq_headers :: "(string \<times> string) list"
  rq_timeout :: int

record response =
  ok :: bool
  json :: "exn + pyval"
  text_body :: string

datatype outcome = Fails exn | Returns response

type_synonym net = "nat \<Rightarrow> request \<Rightarrow> outcome"

record world =
  calls :: "request list"
  sleeps :: "real list"

definition requests_get :: "net \<Rightarrow> request \<Rightarrow> world \<Rightarrow> outcome \<times> world" where
  "requests_get nt rq w = (nt (length (calls w)) rq, w\<lparr>calls := calls w @ [rq]\<rparr>)"

text \<open>
  \<open>time.sleep(d)\<close> for a float \<open>d\<close>, as CPython does it: a NaN raises \<open>ValueError\<close>; the
  delay is turned into nanoseconds by a float multiplication and raises \<open>OverflowError\<close>
  when they do not fit a signed 64-bit integer; a negative delay raises \<open>ValueError\<close>;
  any other delay is handed to the operating system, which sleeps or refuses. The
  operating system is a parameter: \<open>clk i x\<close> is what the sleep number \<open>i\<close> of the run
  (counted from 0) does when asked to sleep \<open>x\<close> seconds, \<open>None\<close> when it sleeps.
  \<open>sleep_error\<close> is the exception of the call, \<open>None\<close> when it returns.
\<close>

type_synonym clock = "nat \<Rightarrow> real \<Rightarrow> exn option"

definition sleep_error :: "clock \<Rightarrow> nat \<Rightarrow> pyfloat \<Rightarrow> exn option" where
  "sleep_error clk i d =
     (case d of
        NaN \<Rightarrow> Some (ValueError ''Invalid value NaN (not a number)'')
      | PosInf \<Rightarrow> Some (OverflowError ''timestamp out of range for platform time_t'')
      | NegInf \<Rightarrow> Some (OverflowError ''timestamp out of range for platform time_t'')
      | Finite m e \<Rightarrow>
          (case fmul d (Finite 1000000000 0) of
             Finite nm ne \<Rightarrow>
               if valof (Finite nm ne) < - (2 ^ 63) \<or> 2 ^ 63 \<le> valof (Finite nm ne)
               then Some (OverflowError ''timestamp out of range for platform time_t'')
               else if valof d < 0
               then Some (ValueError ''sleep length must be non-negative'')
               else clk i (valof d)
           | _ \<Rightarrow> Some (OverflowError ''timestamp out of range for platform time_t'')))"

definition time_sleep :: "clock \<Rightarrow> pyfloat \<Rightarrow> world \<Rightarrow> exn + world" where
  "time_sleep clk d w =
     (case sleep_error clk (length (sleeps w)) d of
        Some e \<Rightarrow> Inl e
      | None \<Rightarrow> Inr (w\<lparr>sleeps := sleeps w @ [valof d]\<rparr>))"

definition HEADERS :: "(string \<times> string) list" where
  "HEADERS = [(''User-Agent'', ''OurTextScores/1.0 (+https://ourtextscores.example)'')]"

section \<open>get_with_retry\<close>

text \<open>
  The loop of \<open>get_with_retry\<close> (lines 19 to 26), by recursion on the attempts left:
  a response is returned at once; an exception is kept in \<open>last_exn\<close> (the variable
  \<open>last\<close>), the loop sleeps \<open>delay\<close> and multiplies it by \<open>backoff\<close>, a float
  multiplication. After the loop, line 27 raises it.
  An exception of \<open>time.sleep\<close> is raised inside the handler and leaves the function.
  The delay starts at \<open>1.0\<close> (line 17); \<open>backoff\<close> is a float, \<open>1.5\<close> when the caller
  gives none (line 15).
\<close>

fun retry_loop ::
  "net \<Rightarrow> clock \<Rightarrow> request \<Rightarrow> pyfloat \<Rightarrow> nat \<Rightarrow> pyfloat \<Rightarrow> exn option \<Rightarrow> world
     \<Rightarrow> (exn + response) \<times> world"
where
  "retry_loop nt clk rq backoff 0 delay last_exn w =
     (Inl (case last_exn of Some e \<Rightarrow> e | None \<Rightarrow> Exception ''request failed''), w)"
| "retry_loop nt clk rq backoff (Suc n) delay last_exn w =
     (case requests_get nt rq w of
        (Returns r, w1) \<Rightarrow> (Inr r, w1)
      | (Fails e, w1) \<Rightarrow>
          (case time_sleep clk delay w1 of
             Inl e2 \<Rightarrow> (Inl e2, w1)
           | Inr w2 \<Rightarrow> retry_loop nt clk rq backoff n (fmul delay backoff) (Some e) w2))"

definition get_with_retry ::
  "net \<Rightarrow> clock \<Rightarrow> string \<Rightarrow> (string \<times> string) list \<Rightarrow> int \<Rightarrow> int \<Rightarrow> pyfloat \<Rightarrow> world
     \<Rightarrow> (exn + response) \<times> world"
where
  "get_with_retry nt clk url params timeout tries backoff w =
     retry_loop nt clk
       \<lparr>rq_url = url, rq_params = params, rq_headers = HEADERS, rq_timeout = timeout\<rparr>
       backoff (nat (max 1 tries)) (Finite 1 0) None w"

definition default_backoff :: pyfloat where
  "default_backoff = Finite 3 (- 1)"

text \<open>
  The delay of the sleep number \<open>k\<close> (counted from 0) of one call, for the first delay
  \<open>d\<close>: \<open>d\<close> multiplied \<open>k\<close> times by \<open>backoff\<close>, each product rounded to a float.
\<close>

fun nth_delay :: "pyfloat \<Rightarrow> pyfloat \<Rightarrow> nat \<Rightarrow> pyfloat" where
  "nth_delay d backoff 0 = d"
| "nth_delay d backoff (Suc k) = nth_delay (fmul d backoff) backoff k"

section \<open>Strings\<close>

definition startswith :: "string \<Rightarrow> string \<Rightarrow> bool" where
  "startswith s p = (take (length p) s = p)"

text \<open>
  \<open>s.replace(old, new)\<close>: every occurrence of \<open>old\<close>, found from left to right without
  overlap, becomes \<open>new\<close>.
\<close>

fun str_replace :: "string \<Rightarrow> string \<Rightarrow> string \<Rightarrow> string" where
  "str_replace old new [] = (if old = [] then new else [])"
| "str_replace old new (c # cs) =
     (if old = [] then new @ c # str_replace old new cs
      else if startswith (c # cs) old
        then new @ str_replace old new (drop (length old - 1) cs)
      else c # str_replace old new cs)"


fun py_replace :: "pyval \<Rightarrow> string \<Rightarrow> string \<Rightarrow> exn + pyval" where
  "py_replace (PStr s) old new = Inr (PStr (str_replace old new s))"
| "py_replace v old new = Inl (no_attribute v ''replace'')"

section \<open>The file list: seed phase (lines 107 to 138)\<close>

record download_urls =
  original :: pyval
  https :: pyval
  direct :: pyval

record file_record =
  f_name :: pyval
  f_title :: pyval
  f_url :: pyval
  f_size :: pyval
  f_sha1 :: pyval
  f_mime_type :: pyval
  f_timestamp :: pyval
  f_user :: pyval
  f_download_urls :: download_urls

text \<open>
  An image of the wiki client. Reading an attribute returns a value or raises;
  \<open>Inl (AttributeError m)\<close> is an attribute that is not there.
  \<open>getattr(obj, attr, default)\<close> returns the default for it and lets every other
  exception through.
\<close>

record image =
  img_imageinfo :: "exn + pyval"
  img_page_title :: "exn + pyval"
  img_name :: "exn + pyval"

definition getattr :: "exn + pyval \<Rightarrow> pyval \<Rightarrow> exn + pyval" where
  "getattr a d = (case a of Inl (AttributeError m) \<Rightarrow> Inr d | _ \<Rightarrow> a)"

text \<open>\<open>info.get(k) if isinstance(info, dict) else None\<close>\<close>

definition info_get :: "pyval \<Rightarrow> string \<Rightarrow> pyval" where
  "info_get info k = (case info of PDict kvs \<Rightarrow> dict_get kvs k PNone | _ \<Rightarrow> PNone)"

text \<open>Line 135 (and line 181): \<open>url.replace('http:', 'https:') if url else None\<close>\<close>

definition https_of :: "pyval \<Rightarrow> exn + pyval" where
  "https_of url = (if truthy url then py_replace url ''http:'' ''https:'' else Inr PNone)"

text \<open>
  Line 136:
  \<open>url.replace('//imslp.org/', 'https://imslp.org/') if url and url.startswith('//') else url\<close>
\<close>

definition direct_of :: "pyval \<Rightarrow> exn + pyval" where
  "direct_of url =
     (if truthy url then
        (case url of
           PStr s \<Rightarrow>
             if startswith s ''//''
             then Inr (PStr (str_replace ''//imslp.org/'' ''https://imslp.org/'' s))
             else Inr url
         | _ \<Rightarrow> Inl (no_attribute url ''startswith''))
      else Inr url)"

text \<open>
  The body of the loop of line 116 for one image: the record it appends to
  \<open>temp_files\<close> and \<open>use_title\<close>, or the exception it raises.
\<close>

definition seed_file :: "image \<Rightarrow> exn + file_record \<times> pyval" where
  "seed_file img =
     (case getattr (img_imageinfo img) (PDict []) of
        Inl e \<Rightarrow> Inl e
      | Inr info \<Rightarrow>
     (let url = info_get info ''url'' in
     (case getattr (img_page_title img) PNone of
        Inl e \<Rightarrow> Inl e
      | Inr title \<Rightarrow>
     (case getattr (img_name img) PNone of
        Inl e \<Rightarrow> Inl e
      | Inr name \<Rightarrow>
     (let use_title = py_or name title in
     (case https_of url of
        Inl e \<Rightarrow> Inl e
      | Inr h \<Rightarrow>
     (case direct_of url of
        Inl e \<Rightarrow> Inl e
      | Inr d \<Rightarrow>
          Inr (\<lparr>f_name = name, f_title = use_title, f_url = url,
                f_size = info_get info ''size'', f_sha1 = info_get info ''sha1'',
                f_mime_type = info_get info ''mime'',
                f_timestamp = info_get info ''timestamp'',
                f_user = info_get info ''user'',
                f_download_urls = \<lparr>original = url, https = h, direct = d\<rparr>\<rparr>,
               use_title))))))))"

fun seed_loop ::
  "image list \<Rightarrow> file_record list \<Rightarrow> pyval list \<Rightarrow> exn + file_record list \<times> pyval list"
where
  "seed_loop [] temp_files titles = Inr (temp_files, titles)"
| "seed_loop (img # imgs) temp_files titles =
     (case seed_file img of
        Inl e \<Rightarrow> Inl e
      | Inr (f, use_title) \<Rightarrow>
          seed_loop imgs (temp_files @ [f])
            (if truthy use_title then titles @ [use_title] else titles))"

section \<open>The file list: batched lookup (lines 142 to 164)\<close>

text \<open>
  \<open>by_title\<close> is a dict whose keys are values of the response. A list or a dict cannot
  be a key (\<open>TypeError\<close>); \<open>True\<close> and \<open>1\<close>, \<open>False\<close> and \<open>0\<close> are the same key.
  \<open>dict_key\<close> gives the representative under which a value is stored and looked up.
\<close>

type_synonym by_title = "pyval \<rightharpoonup> pyval"

fun dict_key :: "pyval \<Rightarrow> exn + pyval" where
  "dict_key (PList xs) = Inl (TypeError (''unhashable type: '' @ [CHR 0x27] @ ''list'' @ [CHR 0x27]))"
| "dict_key (PDict kvs) = Inl (TypeError (''unhashable type: '' @ [CHR 0x27] @ ''dict'' @ [CHR 0x27]))"
| "dict_key (PBool b) = Inr (PInt (if b then 1 else 0))"
| "dict_key v = Inr v"

text \<open>
  \<open>'|'.join(chunk)\<close>: every item has to be a str. (The message of the \<open>TypeError\<close> is
  cut short here; the handler of line 184 drops it.)
\<close>

fun join_titles :: "pyval list \<Rightarrow> exn + string" where
  "join_titles [] = Inr []"
| "join_titles [PStr s] = Inr s"
| "join_titles (PStr s # t # ts) =
     (case join_titles (t # ts) of Inl e \<Rightarrow> Inl e | Inr r \<Rightarrow> Inr (s @ ''|'' @ r))"
| "join_titles (v # ts) = Inl (TypeError (''expected str instance, '' @ type_name v @ '' found''))"

fun pages_values :: "pyval \<Rightarrow> exn + pyval list" where
  "pages_values (PDict kvs) = Inr (map snd kvs)"
| "pages_values v = Inl (no_attribute v ''values'')"

text \<open>
  \<open>ii[0]\<close> for a truthy \<open>ii\<close>: the first item of a list, the first character of a str
  (one to four bytes of UTF-8), \<open>KeyError\<close> on a dict (its keys are strings),
  \<open>TypeError\<close> on a number.
\<close>

definition first_char :: "string \<Rightarrow> string" where
  "first_char s =
     (case s of [] \<Rightarrow> []
      | c # cs \<Rightarrow>
          let b = of_char c :: nat
          in take (if 240 \<le> b then 4 else if 224 \<le> b then 3 else if 192 \<le> b then 2 else 1) s)"

fun index0 :: "pyval \<Rightarrow> exn + pyval" where
  "index0 (PList []) = Inl (Exception ''list index out of range'')"
| "index0 (PList (x # xs)) = Inr x"
| "index0 (PStr []) = Inl (Exception ''string index out of range'')"
| "index0 (PStr s) = Inr (PStr (first_char s))"
| "index0 (PDict kvs) = Inl (KeyError ''0'')"
| "index0 v = Inl (TypeError ([CHR 0x27] @ type_name v @ [CHR 0x27] @ '' object is not subscriptable''))"

text \<open>The loop of line 158 over the page entries of one response.\<close>

fun collect_pages :: "pyval list \<Rightarrow> by_title \<Rightarrow> exn + by_title" where
  "collect_pages [] bt = Inr bt"
| "collect_pages (p # ps) bt =
     (case py_get p ''title'' PNone of
        Inl e \<Rightarrow> Inl e
      | Inr ti \<Rightarrow>
     (case py_get p ''imageinfo'' PNone of
        Inl e \<Rightarrow> Inl e
      | Inr ii0 \<Rightarrow>
     (let ii = py_or ii0 (PList []) in
      if \<not> truthy ti \<or> \<not> truthy ii then collect_pages ps bt
      else
        (case index0 ii of
           Inl e \<Rightarrow> Inl e
         | Inr info \<Rightarrow>
        (case dict_key ti of
           Inl e \<Rightarrow> Inl e
         | Inr k \<Rightarrow> collect_pages ps (bt(k \<mapsto> info)))))))"

text \<open>Lines 156 to 164: what an OK response adds to \<open>by_title\<close>.\<close>

definition collect_response :: "response \<Rightarrow> by_title \<Rightarrow> exn + by_title" where
  "collect_response r bt =
     (case json r of
        Inl e \<Rightarrow> Inl e
      | Inr data \<Rightarrow>
     (case py_get data ''query'' (PDict []) of
        Inl e \<Rightarrow> Inl e
      | Inr q \<Rightarrow>
     (case py_get q ''pages'' (PDict []) of
        Inl e \<Rightarrow> Inl e
      | Inr pages \<Rightarrow>
     (case pages_values pages of
        Inl e \<Rightarrow> Inl e
      | Inr ps \<Rightarrow> collect_pages ps bt))))"

definition imageinfo_params :: "string \<Rightarrow> (string \<times> string) list" where
  "imageinfo_params titles_param =
     [(''action'', ''query''), (''format'', ''json''), (''prop'', ''imageinfo''),
      (''iiprop'', ''url|size|sha1|mime|timestamp|user|comment''),
      (''titles'', titles_param)]"

text \<open>
  The loop of line 145 over the chunks. An exception (of the join, of the fetch after its
  last attempt, of the parsing) leaves the loop: no later chunk is asked.
\<close>

fun chunk_loop ::
  "net \<Rightarrow> clock \<Rightarrow> pyval list list \<Rightarrow> by_title \<Rightarrow> world
     \<Rightarrow> (exn + by_title) \<times> world"
where
  "chunk_loop nt clk [] bt w = (Inr bt, w)"
| "chunk_loop nt clk (chunk # chunks) bt w =
     (case join_titles chunk of
        Inl e \<Rightarrow> (Inl e, w)
      | Inr titles_param \<Rightarrow>
          (case get_with_retry nt clk ''https://imslp.org/w/api.php''
                  (imageinfo_params titles_param) 20 3 default_backoff w of
             (Inl e, w1) \<Rightarrow> (Inl e, w1)
           | (Inr r, w1) \<Rightarrow>
               if ok r then
                 (case collect_response r bt of
                    Inl e \<Rightarrow> (Inl e, w1)
                  | Inr bt1 \<Rightarrow> chunk_loop nt clk chunks bt1 w1)
               else chunk_loop nt clk chunks bt w1))"

text \<open>\<open>range(lo, hi, step)\<close> for a positive step, and the chunks of line 146.\<close>

definition py_range :: "nat \<Rightarrow> nat \<Rightarrow> nat \<Rightarrow> nat list" where
  "py_range lo hi step = filter (\<lambda>i. (i - lo) mod step = 0) [lo..<hi]"

definition chunks_of :: "pyval list \<Rightarrow> pyval list list" where
  "chunks_of titles =
     map (\<lambda>i. take 50 (drop i titles)) (py_range 0 (min (length titles) 100) 50)"

section \<open>The file list: reconciliation (lines 167 to 183)\<close>

text \<open>
  One round of the loop of line 167. The record is a dict updated key by key, so an
  exception in the middle leaves the keys already written: the result is the record as
  it stands, with the exception if one was raised.
\<close>

definition by_title_get :: "by_title \<Rightarrow> pyval \<Rightarrow> exn + pyval" where
  "by_title_get bt ti =
     (case dict_key ti of
        Inl e \<Rightarrow> Inl e
      | Inr k \<Rightarrow> Inr (case bt k of None \<Rightarrow> PNone | Some v \<Rightarrow> v))"

text \<open>Lines 173 to 178, for an \<open>info\<close> that is a dict.\<close>

definition merge_fields :: "(string \<times> pyval) list \<Rightarrow> file_record \<Rightarrow> file_record" where
  "merge_fields kvs f =
     f\<lparr>f_url := py_or (dict_get kvs ''url'' PNone) (f_url f),
       f_size := (if dict_get kvs ''size'' PNone \<noteq> PNone
                  then dict_get kvs ''size'' PNone else f_size f),
       f_sha1 := py_or (dict_get kvs ''sha1'' PNone) (f_sha1 f),
       f_mime_type := py_or (dict_get kvs ''mime'' PNone) (f_mime_type f),
       f_timestamp := py_or (dict_get kvs ''timestamp'' PNone) (f_timestamp f),
       f_user := py_or (dict_get kvs ''user'' PNone) (f_user f)\<rparr>"

text \<open>Lines 172 to 183, for a truthy \<open>info\<close>.\<close>

definition merge_info :: "pyval \<Rightarrow> file_record \<Rightarrow> file_record \<times> exn option" where
  "merge_info info f =
     (case info of
        PDict kvs \<Rightarrow>
          (let url = dict_get kvs ''url'' PNone;
               f1 = merge_fields kvs f
           in (case https_of url of
                 Inl e \<Rightarrow> (f1, Some e)
               | Inr h \<Rightarrow>
                   (f1\<lparr>f_download_urls := \<lparr>original = url, https = h, direct = url\<rparr>\<rparr>,
                    None)))
      | _ \<Rightarrow> (f, Some (no_attribute info ''get'')))"

definition merge_file :: "by_title \<Rightarrow> file_record \<Rightarrow> file_record \<times> exn option" where
  "merge_file bt f =
     (case by_title_get bt (f_title f) of
        Inl e \<Rightarrow> (f, Some e)
      | Inr info \<Rightarrow> if \<not> truthy info then (f, None) else merge_info info f)"

fun merge_loop :: "by_title \<Rightarrow> file_record list \<Rightarrow> file_record list \<times> exn option" where
  "merge_loop bt [] = ([], None)"
| "merge_loop bt (f # fs) =
     (case merge_file bt f of
        (f1, Some e) \<Rightarrow> (f1 # fs, Some e)
      | (f1, None) \<Rightarrow> (case merge_loop bt fs of (fs1, r) \<Rightarrow> (f1 # fs1, r)))"

section \<open>The file list: the whole section (lines 106 to 189)\<close>

text \<open>
  Lines 141 to 185. The handler of line 184 drops every exception of the batched lookup
  and of the reconciliation; \<open>temp_files\<close> is what it is at that moment.
\<close>

definition batched_phase ::
  "net \<Rightarrow> clock \<Rightarrow> pyval list \<Rightarrow> file_record list \<Rightarrow> world
     \<Rightarrow> file_record list \<times> world"
where
  "batched_phase nt clk titles temp_files w =
     (if titles = [] then (temp_files, w)
      else
        (case chunk_loop nt clk (chunks_of titles) Map.empty w of
           (Inl e, w1) \<Rightarrow> (temp_files, w1)
         | (Inr bt, w1) \<Rightarrow> (fst (merge_loop bt temp_files), w1)))"

text \<open>
  The try block of line 106: \<open>Inr\<close> is the list stored in \<open>metadata['files']\<close>, \<open>Inl\<close> the
  exception the handler of line 188 records. \<open>images\<close> is the outcome of
  \<open>list(page.images())\<close>; the handler of line 110 turns its exception into no image.
\<close>

definition files_section ::
  "net \<Rightarrow> clock \<Rightarrow> (exn + image list) \<Rightarrow> world \<Rightarrow> (exn + file_record list) \<times> world"
where
  "files_section nt clk images w =
     (let imgs = (case images of Inl e \<Rightarrow> [] | Inr xs \<Rightarrow> take 100 xs) in
      case seed_loop imgs [] [] of
        Inl e \<Rightarrow> (Inl e, w)
      | Inr (temp_files, titles) \<Rightarrow>
          (case batched_phase nt clk titles temp_files w of (fs, w1) \<Rightarrow> (Inr fs, w1)))"

section \<open>The sections of the document (lines 79 to 201 of main)\<close>

text \<open>
  The page of the wiki client, as far as \<open>main\<close> reads it: each attribute read and each
  listing returns or raises. \<open>pg_categories\<close>, \<open>pg_images\<close> and \<open>pg_revisions\<close> are the
  outcomes of \<open>list(page.categories())\<close>, \<open>list(page.images())\<close> and
  \<open>list(page.revisions())\<close>.
\<close>

record category =
  cat_name :: "exn + pyval"

record page =
  pg_exists :: bool
  pg_name :: "exn + pyval"
  pg_page_title :: "exn + pyval"
  pg_pageid :: "exn + pyval"
  pg_namespace :: "exn + pyval"
  pg_revision :: "exn + pyval"
  pg_categories :: "exn + category list"
  pg_images :: "exn + image list"
  pg_revisions :: "exn + pyval list"

record revision_record =
  revid :: pyval
  rev_user :: pyval
  rev_timestamp :: pyval
  rev_comment :: pyval

text \<open>
  The document. A key \<open>..._error\<close> that is absent is \<open>None\<close>. The keys \<open>url\<close> and
  \<open>timestamp\<close> (lines 81 and 82) are left out: they come from \<open>urllib.parse.quote\<close> and
  the clock, and no section reads them.
\<close>

record metadata =
  md_page_title :: string
  md_exists :: bool
  md_basic_info :: "(string \<times> pyval) list"
  md_categories :: "pyval list"
  md_files :: "file_record list"
  md_revision_history :: "revision_record list"
  md_basic_info_error :: "string option"
  md_categories_error :: "string option"
  md_files_error :: "string option"
  md_revision_history_error :: "string option"

text \<open>Lines 91 to 97: the dict literal, its values read in order.\<close>

definition basic_info_section :: "page \<Rightarrow> exn + (string \<times> pyval) list" where
  "basic_info_section pg =
     (case pg_name pg of
        Inl e \<Rightarrow> Inl e
      | Inr n \<Rightarrow>
     (case pg_page_title pg of
        Inl e \<Rightarrow> Inl e
      | Inr t \<Rightarrow>
     (case getattr (pg_pageid pg) PNone of
        Inl e \<Rightarrow> Inl e
      | Inr i \<Rightarrow>
     (case getattr (pg_namespace pg) PNone of
        Inl e \<Rightarrow> Inl e
      | Inr ns \<Rightarrow>
     (case getattr (pg_revision pg) PNone of
        Inl e \<Rightarrow> Inl e
      | Inr rv \<Rightarrow>
          Inr [(''page_name'', n), (''page_title'', t), (''page_id'', i),
               (''namespace'', ns), (''last_revision'', rv)])))))"

text \<open>Line 102: \<open>[cat.name for cat in list(page.categories())]\<close>\<close>

fun category_names :: "category list \<Rightarrow> exn + pyval list" where
  "category_names [] = Inr []"
| "category_names (c # cs) =
     (case cat_name c of
        Inl e \<Rightarrow> Inl e
      | Inr n \<Rightarrow> (case category_names cs of Inl e \<Rightarrow> Inl e | Inr ns \<Rightarrow> Inr (n # ns)))"

definition categories_section :: "page \<Rightarrow> exn + pyval list" where
  "categories_section pg =
     (case pg_categories pg of Inl e \<Rightarrow> Inl e | Inr cats \<Rightarrow> category_names cats)"

text \<open>
  Lines 192 to 199. The loop appends to \<open>metadata['revision_history']\<close> itself, so the
  entries appended before an exception stay.
\<close>

definition revision_entry :: "pyval \<Rightarrow> exn + revision_record" where
  "revision_entry rv =
     (case rv of
        PDict kvs \<Rightarrow>
          Inr \<lparr>revid = dict_get kvs ''revid'' PNone, rev_user = dict_get kvs ''user'' PNone,
               rev_timestamp = dict_get kvs ''timestamp'' PNone,
               rev_comment = dict_get kvs ''comment'' PNone\<rparr>
      | _ \<Rightarrow> Inl (no_attribute rv ''get''))"

fun revision_loop ::
  "pyval list \<Rightarrow> revision_record list \<Rightarrow> revision_record list \<times> exn option"
where
  "revision_loop [] acc = (acc, None)"
| "revision_loop (rv # revs) acc =
     (case revision_entry rv of
        Inl e \<Rightarrow> (acc, Some e)
      | Inr x \<Rightarrow> revision_loop revs (acc @ [x]))"

text \<open>
  Lines 79 to 201: the document \<open>main\<close> prints for a resolved title and its page. The
  dict \<open>metadata\<close> is created with every section empty and then updated by the four try
  blocks, one after the other.
\<close>

definition initial_metadata :: "string \<Rightarrow> page \<Rightarrow> metadata" where
  "initial_metadata title pg =
     \<lparr>md_page_title = title, md_exists = pg_exists pg, md_basic_info = [],
      md_categories = [], md_files = [], md_revision_history = [],
      md_basic_info_error = None, md_categories_error = None, md_files_error = None,
      md_revision_history_error = None\<rparr>"

definition try_basic_info :: "page \<Rightarrow> metadata \<Rightarrow> metadata" where
  "try_basic_info pg md =
     (case basic_info_section pg of
        Inr d \<Rightarrow> md\<lparr>md_basic_info := d\<rparr>
      | Inl e \<Rightarrow> md\<lparr>md_basic_info_error := Some (str_exn e)\<rparr>)"

definition try_categories :: "page \<Rightarrow> metadata \<Rightarrow> metadata" where
  "try_categories pg md =
     (case categories_section pg of
        Inr c \<Rightarrow> md\<lparr>md_categories := c\<rparr>
      | Inl e \<Rightarrow> md\<lparr>md_categories_error := Some (str_exn e)\<rparr>)"

definition try_files ::
  "net \<Rightarrow> clock \<Rightarrow> page \<Rightarrow> metadata \<Rightarrow> world \<Rightarrow> metadata \<times> world"
where
  "try_files nt clk pg md w =
     (case files_section nt clk (pg_images pg) w of
        (Inr fs, w1) \<Rightarrow> (md\<lparr>md_files := fs\<rparr>, w1)
      | (Inl e, w1) \<Rightarrow> (md\<lparr>md_files_error := Some (str_exn e)\<rparr>, w1))"

definition try_revision_history :: "page \<Rightarrow> metadata \<Rightarrow> metadata" where
  "try_revision_history pg md =
     (case pg_revisions pg of
        Inl e \<Rightarrow> md\<lparr>md_revision_history_error := Some (str_exn e)\<rparr>
      | Inr revs \<Rightarrow>
          (case revision_loop (take 5 revs) (md_revision_history md) of
             (rh, None) \<Rightarrow> md\<lparr>md_revision_history := rh\<rparr>
           | (rh, Some e) \<Rightarrow>
               md\<lparr>md_revision_history := rh, md_revision_history_error := Some (str_exn e)\<rparr>))"

definition build_metadata ::
  "net \<Rightarrow> clock \<Rightarrow> string \<Rightarrow> page \<Rightarrow> world \<Rightarrow> metadata \<times> world"
where
  "build_metadata nt clk title pg w =
     (case try_files nt clk pg
             (try_categories pg (try_basic_info pg (initial_metadata title pg))) w of
        (md, w1) \<Rightarrow> (try_revision_history pg md, w1))"

section \<open>extract_title\<close>

text \<open>
  \<open>urllib.parse.unquote\<close> on a str: a string without \<open>%\<close> is returned as it is;
  otherwise every run of ASCII characters has its escapes \<open>%XX\<close> turned into bytes and the
  bytes decoded as UTF-8 with the error handler \<open>replace\<close>, and the characters outside
  ASCII stay. The decoder is the parameter \<open>dec\<close>: on well-formed UTF-8 it is the identity
  of the byte string.
\<close>

definition hex_val :: "char \<Rightarrow> nat option" where
  "hex_val c =
     (let n = of_char c :: nat in
      if 48 \<le> n \<and> n \<le> 57 then Some (n - 48)
      else if 65 \<le> n \<and> n \<le> 70 then Some (n - 55)
      else if 97 \<le> n \<and> n \<le> 102 then Some (n - 87)
      else None)"

fun unquote_to_bytes :: "string \<Rightarrow> string" where
  "unquote_to_bytes (c # a # b # cs) =
     (if c = CHR ''%'' then
        (case (hex_val a, hex_val b) of
           (Some h, Some l) \<Rightarrow> char_of (16 * h + l) # unquote_to_bytes cs
         | _ \<Rightarrow> c # unquote_to_bytes (a # b # cs))
      else c # unquote_to_bytes (a # b # cs))"
| "unquote_to_bytes cs = cs"

definition is_ascii :: "char \<Rightarrow> bool" where
  "is_ascii c = ((of_char c :: nat) < 128)"

function unquote_parts :: "(string \<Rightarrow> string) \<Rightarrow> string \<Rightarrow> string" where
  "unquote_parts dec [] = []"
| "unquote_parts dec (c # cs) =
     (if is_ascii c
      then dec (unquote_to_bytes (takeWhile is_ascii (c # cs)))
             @ unquote_parts dec (dropWhile is_ascii cs)
      else takeWhile (\<lambda>x. \<not> is_ascii x) (c # cs)
             @ unquote_parts dec (dropWhile (\<lambda>x. \<not> is_ascii x) cs))"
  by pat_completeness auto
termination
  by (relation "measure (\<lambda>(dec, s). length s)")
     (auto simp: length_dropWhile_le le_imp_less_Suc)

definition unquote :: "(string \<Rightarrow> string) \<Rightarrow> string \<Rightarrow> string" where
  "unquote dec s = (if CHR ''%'' \<notin> set s then s else unquote_parts dec s)"

text \<open>
  \<open>unquote\<close> on a value of the response that is not a str. The test \<open>'%' not in string\<close>
  raises \<open>TypeError\<close> on a value that is no container; on a list or a dict without the
  item (the key) \<open>%\<close> the read of \<open>string.split\<close> raises \<open>AttributeError\<close>, and with it
  the regular expression refuses the value. (The handler of line 48 drops them all.)
\<close>

fun py_unquote :: "(string \<Rightarrow> string) \<Rightarrow> pyval \<Rightarrow> exn + string" where
  "py_unquote dec (PStr s) = Inr (unquote dec s)"
| "py_unquote dec (PList xs) =
     Inl (if PStr ''%'' \<in> set xs
          then TypeError (''expected string or bytes-like object, got '' @ [CHR 0x27] @ ''list''
                          @ [CHR 0x27])
          else no_attribute (PList xs) ''split'')"
| "py_unquote dec (PDict kvs) =
     Inl (if ''%'' \<in> set (map fst kvs)
          then TypeError (''expected string or bytes-like object, got '' @ [CHR 0x27] @ ''dict''
                          @ [CHR 0x27])
          else no_attribute (PDict kvs) ''split'')"
| "py_unquote dec v =
     Inl (TypeError (''argument of type '' @ [CHR 0x27] @ type_name v @ [CHR 0x27]
                     @ '' is not iterable''))"

text \<open>
  \<open>s.split(sep, 1)\<close> for a non-empty separator: the parts before and after the first
  occurrence, or the string alone.
\<close>

fun split_once :: "string \<Rightarrow> string \<Rightarrow> string list" where
  "split_once sep [] = [[]]"
| "split_once sep (c # cs) =
     (if startswith (c # cs) sep then [[], drop (length sep) (c # cs)]
      else (case split_once sep cs of
              [a] \<Rightarrow> [c # a]
            | a # rest \<Rightarrow> (c # a) # rest
            | [] \<Rightarrow> []))"

definition index1 :: "string list \<Rightarrow> exn + string" where
  "index1 xs = (case xs of a # b # rest \<Rightarrow> Inr b | _ \<Rightarrow> Inl (Exception ''list index out of range''))"

text \<open>
  \<open>str.isdigit\<close>: the string is not empty and each of its characters is a digit. The
  characters of the byte string are its UTF-8 sequences (\<open>chars_of\<close>). An ASCII character
  is a digit when it is one of \<open>0\<close> to \<open>9\<close>; for a character outside ASCII the Unicode
  database decides (the characters of numeric type Digit or Decimal): that table is the
  parameter \<open>digit\<close>.
\<close>

function chars_of :: "string \<Rightarrow> string list" where
  "chars_of [] = []"
| "chars_of (c # cs) =
     first_char (c # cs) # chars_of (drop (length (first_char (c # cs))) (c # cs))"
  by pat_completeness auto
termination
  by (relation "measure length") (auto simp: first_char_def Let_def)

definition is_digit_char :: "(string \<Rightarrow> bool) \<Rightarrow> string \<Rightarrow> bool" where
  "is_digit_char digit ch =
     (case ch of
        [c] \<Rightarrow> if is_ascii c then 48 \<le> (of_char c :: nat) \<and> (of_char c :: nat) \<le> 57
               else digit ch
      | _ \<Rightarrow> digit ch)"

definition isdigit :: "(string \<Rightarrow> bool) \<Rightarrow> string \<Rightarrow> bool" where
  "isdigit digit s = (s \<noteq> [] \<and> list_all (is_digit_char digit) (chars_of s))"

text \<open>
  Lines 43 to 47 on an OK response. \<open>Inr (Some t)\<close>: line 47 returns \<open>t\<close>.
  \<open>Inr None\<close>: the test of line 46 fails. \<open>Inl e\<close>: an exception, for the handler of
  line 48.
\<close>

fun first_value :: "pyval \<Rightarrow> exn + pyval" where
  "first_value (PDict []) = Inl (Exception ''StopIteration'')"
| "first_value (PDict (kv # kvs)) = Inr (snd kv)"
| "first_value v = Inl (no_attribute v ''values'')"

definition api_title :: "(string \<Rightarrow> string) \<Rightarrow> response \<Rightarrow> exn + string option" where
  "api_title dec r =
     (case json r of
        Inl e \<Rightarrow> Inl e
      | Inr data \<Rightarrow>
     (case py_get data ''query'' (PDict []) of
        Inl e \<Rightarrow> Inl e
      | Inr q \<Rightarrow>
     (case py_get q ''pages'' (PDict []) of
        Inl e \<Rightarrow> Inl e
      | Inr pages \<Rightarrow>
     (case (if truthy pages then first_value pages else Inr PNone) of
        Inl e \<Rightarrow> Inl e
      | Inr pg \<Rightarrow>
          if \<not> truthy pg then Inr None
          else
            (case py_get pg ''missing'' PNone of
               Inl e \<Rightarrow> Inl e
             | Inr m \<Rightarrow>
                 if truthy m then Inr None
                 else
                   (case py_get pg ''title'' PNone of
                      Inl e \<Rightarrow> Inl e
                    | Inr t \<Rightarrow>
                        if \<not> truthy t then Inr None
                        else (case py_unquote dec t of
                                Inl e \<Rightarrow> Inl e
                              | Inr u \<Rightarrow> Inr (Some u))))))))"

text \<open>
  Line 55: the regular expression
  \<^verbatim>\<open><link rel="canonical" href="https?://imslp.org/wiki/([^"]+)"\<close>.
  \<open>strip_prefix\<close> reads a literal; the dot reads one character other than a newline;
  the group is the longest run without a double quote, not empty, and a double quote
  follows it. \<open>re_search\<close> tries every position from the left and gives the group.
\<close>

definition strip_prefix :: "string \<Rightarrow> string \<Rightarrow> string option" where
  "strip_prefix p s = (if startswith s p then Some (drop (length p) s) else None)"

definition match_canonical :: "string \<Rightarrow> string option" where
  "match_canonical t =
     (case strip_prefix (''<link rel='' @ [CHR 0x22] @ ''canonical'' @ [CHR 0x22] @ '' href=''
                          @ [CHR 0x22] @ ''http'') t of
        None \<Rightarrow> None
      | Some t1 \<Rightarrow>
     (case strip_prefix ''://imslp'' (if startswith t1 ''s'' then drop 1 t1 else t1) of
        None \<Rightarrow> None
      | Some t2 \<Rightarrow>
          if t2 = [] \<or> hd t2 = CHR 0x0A then None
          else
            (case strip_prefix ''org/wiki/'' (drop (length (first_char t2)) t2) of
               None \<Rightarrow> None
             | Some t3 \<Rightarrow>
                 let g = takeWhile (\<lambda>c. c \<noteq> CHR 0x22) t3
                 in if g \<noteq> [] \<and> length g < length t3 then Some g else None)))"

fun re_search :: "string \<Rightarrow> string option" where
  "re_search [] = match_canonical []"
| "re_search (c # cs) =
     (case match_canonical (c # cs) of Some g \<Rightarrow> Some g | None \<Rightarrow> re_search cs)"

text \<open>Lines 53 to 58 on the response of \<open>index.php\<close>.\<close>

definition canonical_title :: "(string \<Rightarrow> string) \<Rightarrow> response \<Rightarrow> string option" where
  "canonical_title dec r2 =
     (if ok r2 then
        (case re_search (text_body r2) of
           None \<Rightarrow> None
         | Some g \<Rightarrow> Some (str_replace ''_'' '' '' (unquote dec g)))
      else None)"

definition pageinfo_params :: "string \<Rightarrow> (string \<times> string) list" where
  "pageinfo_params target =
     [(''action'', ''query''), (''format'', ''json''), (''prop'', ''info''),
      (''pageids'', target), (''inprop'', ''url'')]"

text \<open>
  Lines 36 to 49: \<open>Some t\<close> when line 47 returns \<open>t\<close>; \<open>None\<close> when the block ends
  without returning (the response is not OK, the test fails, or an exception is dropped).
\<close>

definition api_lookup ::
  "(string \<Rightarrow> string) \<Rightarrow> net \<Rightarrow> clock \<Rightarrow> string \<Rightarrow> world \<Rightarrow> string option \<times> world"
where
  "api_lookup dec nt clk target w =
     (case get_with_retry nt clk ''https://imslp.org/w/api.php'' (pageinfo_params target)
             15 3 default_backoff w of
        (Inl e, w1) \<Rightarrow> (None, w1)
      | (Inr r, w1) \<Rightarrow>
          if ok r then (case api_title dec r of Inl e \<Rightarrow> (None, w1) | Inr t \<Rightarrow> (t, w1))
          else (None, w1))"

text \<open>Lines 50 to 60: one GET without headers, no retry.\<close>

definition canonical_lookup ::
  "(string \<Rightarrow> string) \<Rightarrow> net \<Rightarrow> string \<Rightarrow> world \<Rightarrow> string option \<times> world"
where
  "canonical_lookup dec nt target w =
     (case requests_get nt \<lparr>rq_url = ''https://imslp.org/index.php'',
                            rq_params = [(''curid'', target)], rq_headers = [],
                            rq_timeout = 15\<rparr> w of
        (Fails e, w1) \<Rightarrow> (None, w1)
      | (Returns r2, w1) \<Rightarrow> (canonical_title dec r2, w1))"

text \<open>
  \<open>extract_title\<close>, with the decoder of \<open>unquote\<close>, the table of \<open>isdigit\<close>, the transport
  and the clock as parameters.
\<close>

definition extract_title ::
  "(string \<Rightarrow> string) \<Rightarrow> (string \<Rightarrow> bool) \<Rightarrow> net \<Rightarrow> clock \<Rightarrow> string \<Rightarrow> world
     \<Rightarrow> (exn + string) \<times> world"
where
  "extract_title dec digit nt clk target w =
     (if startswith target ''http://imslp.org/wiki/''
         \<or> startswith target ''https://imslp.org/wiki/''
      then (case index1 (split_once ''/wiki/'' target) of
              Inl e \<Rightarrow> (Inl e, w)
            | Inr title \<Rightarrow> (Inr (unquote dec title), w))
      else if isdigit digit target then
        (case api_lookup dec nt clk target w of
           (Some t, w1) \<Rightarrow> (Inr t, w1)
         | (None, w1) \<Rightarrow>
             (case canonical_lookup dec nt target w1 of
                (Some t, w2) \<Rightarrow> (Inr t, w2)
              | (None, w2) \<Rightarrow> (Inr (unquote dec target), w2)))
      else (Inr (unquote dec target), w))"

section \<open>Example inputs\<close>

text \<open>
  An image \<open>File:X.pdf\<close> whose \<open>imageinfo\<close> holds only a url, and the record of that
  file with a given url, size, user and download urls.
\<close>

definition ex_image :: "string \<Rightarrow> image" where
  "ex_image u =
     \<lparr>img_imageinfo = Inr (PDict [(''url'', PStr u)]),
      img_page_title = Inr (PStr ''X.pdf''), img_name = Inr (PStr ''File:X.pdf'')\<rparr>"

definition ex_file :: "pyval \<Rightarrow> pyval \<Rightarrow> pyval \<Rightarrow> download_urls \<Rightarrow> file_record" where
  "ex_file u sz usr dl =
     \<lparr>f_name = PStr ''File:X.pdf'', f_title = PStr ''File:X.pdf'', f_url = u,
      f_size = sz, f_sha1 = PNone, f_mime_type = PNone, f_timestamp = PNone,
      f_user = usr, f_download_urls = dl\<rparr>"

definition ex_by_title :: "(string \<times> pyval) list \<Rightarrow> by_title" where
  "ex_by_title kvs = Map.empty(PStr ''File:X.pdf'' \<mapsto> PDict kvs)"

text \<open>The record the seed phase builds for that image with the url of scenario D.\<close>

definition ex_seeded :: file_record where
  "ex_seeded =
     ex_file (PStr ''http://imslp.org/x.pdf'') PNone PNone
       \<lparr>original = PStr ''http://imslp.org/x.pdf'', https = PStr ''https://imslp.org/x.pdf'',
        direct = PStr ''http://imslp.org/x.pdf''\<rparr>"

text \<open>
  A page with given outcomes of its category and image listings, a transport that is
  down, one that answers every GET with an OK response holding the given page entries,
  and the state before any effect.
\<close>

definition ex_page :: "(exn + category list) \<Rightarrow> (exn + image list) \<Rightarrow> page" where
  "ex_page cats imgs =
     \<lparr>pg_exists = True, pg_name = Inr (PStr ''Symphony No.5''),
      pg_page_title = Inr (PStr ''Symphony No.5''), pg_pageid = Inr (PInt 12345),
      pg_namespace = Inr (PInt 0), pg_revision = Inr (PInt 7),
      pg_categories = cats, pg_images = imgs,
      pg_revisions = Inr [PDict [(''revid'', PInt 7), (''user'', PStr ''Editor'')]]\<rparr>"

definition ex_net_down :: net where
  "ex_net_down = (\<lambda>i rq. Fails (Exception ''connection refused''))"

definition ex_net_pages :: "(string \<times> pyval) list \<Rightarrow> net" where
  "ex_net_pages pages =
     (\<lambda>i rq. Returns \<lparr>ok = True, json = Inr (PDict [(''query'', PDict [(''pages'', PDict pages)])]),
                       text_body = []\<rparr>)"

definition ex_world :: world where
  "ex_world = \<lparr>calls = [], sleeps = []\<rparr>"

text \<open>
  An operating system that sleeps whatever it is asked, and a Unicode table without
  digits outside ASCII (enough for ASCII inputs).
\<close>

definition ex_clock :: clock where
  "ex_clock = (\<lambda>i x. None)"

definition ex_digit :: "string \<Rightarrow> bool" where
  "ex_digit = (\<lambda>ch. False)"

text \<open>A transport that raises on its first \<open>n\<close> GETs and then returns an empty OK response.\<close>

definition ex_response :: response where
  "ex_response = \<lparr>ok = True, json = Inr PNone, text_body = []\<rparr>"

definition ex_net_fail_then :: "nat \<Rightarrow> net" where
  "ex_net_fail_then n = (\<lambda>i rq. if i < n then Fails (Exception ''timed out'') else Returns ex_response)"

section \<open>Properties of get_with_retry\<close>

lemma nth_delay_Suc: "nth_delay d b (Suc k) = fmul (nth_delay d b k) b"
  by (induction k arbitrary: d) simp_all

lemma map_nth_delay:
  "map (\<lambda>k. valof (nth_delay d b k)) [0..<Suc N] =
     valof d # map (\<lambda>k. valof (nth_delay (fmul d b) b k)) [0..<N]"
  by (simp add: upt_rec [of 0 "Suc N"] map_Suc_upt [symmetric] del: upt_Suc)

lemma retry_loop_fail_then_ok:
  assumes "\<forall>i<N. \<exists>e. nt (length (calls w) + i) rq = Fails e"
    and "nt (length (calls w) + N) rq = Returns r"
    and "\<forall>k<N. sleep_error clk (length (sleeps w) + k) (nth_delay d b k) = None"
  shows "retry_loop nt clk rq b (Suc N) d last_exn w =
           (Inr r, \<lparr>calls = calls w @ replicate (Suc N) rq,
                    sleeps = sleeps w @ map (\<lambda>k. valof (nth_delay d b k)) [0..<N]\<rparr>)"
  using assms
proof (induction N arbitrary: w d last_exn)
  case 0
  then show ?case by (simp add: requests_get_def)
next
  case (Suc N)
  from Suc.prems(1) obtain e where e: "nt (length (calls w)) rq = Fails e"
    by force
  from Suc.prems(3) have s0: "sleep_error clk (length (sleeps w)) d = None"
    by force
  let ?w2 = "w\<lparr>calls := calls w @ [rq], sleeps := sleeps w @ [valof d]\<rparr>"
  have a: "\<forall>i<N. \<exists>e. nt (length (calls ?w2) + i) rq = Fails e"
  proof (intro allI impI)
    fix i assume "i < N"
    then have "Suc i < Suc N" by simp
    with Suc.prems(1) have "\<exists>e. nt (length (calls w) + Suc i) rq = Fails e" by blast
    then show "\<exists>e. nt (length (calls ?w2) + i) rq = Fails e" by simp
  qed
  have b: "nt (length (calls ?w2) + N) rq = Returns r"
    using Suc.prems(2) by simp
  have c: "\<forall>k<N. sleep_error clk (length (sleeps ?w2) + k) (nth_delay (fmul d b) b k) = None"
  proof (intro allI impI)
    fix k assume "k < N"
    then have "Suc k < Suc N" by simp
    with Suc.prems(3)
    have "sleep_error clk (length (sleeps w) + Suc k) (nth_delay d b (Suc k)) = None" by blast
    then show "sleep_error clk (length (sleeps ?w2) + k) (nth_delay (fmul d b) b k) = None"
      by simp
  qed
  have ih: "retry_loop nt clk rq b (Suc N) (fmul d b) (Some e) ?w2 =
           (Inr r, \<lparr>calls = calls ?w2 @ replicate (Suc N) rq,
                    sleeps = sleeps ?w2 @ map (\<lambda>k. valof (nth_delay (fmul d b) b k)) [0..<N]\<rparr>)"
    using Suc.IH [OF a b c] .
  have step: "retry_loop nt clk rq b (Suc (Suc N)) d last_exn w =
          retry_loop nt clk rq b (Suc N) (fmul d b) (Some e) ?w2"
    using e s0
    by (subst retry_loop.simps(2))
       (simp add: requests_get_def time_sleep_def del: retry_loop.simps)
  show ?case
    unfolding step ih map_nth_delay by (simp add: replicate_append_same)
qed

text \<open>When every attempt raises, the call raises, whatever the clock does.\<close>

lemma retry_loop_all_fail_raises:
  assumes "\<forall>i<n. \<exists>e. nt (length (calls w) + i) rq = Fails e"
  shows "\<exists>e w1. retry_loop nt clk rq b n d last_exn w = (Inl e, w1)"
  using assms
proof (induction n arbitrary: w d last_exn)
  case 0
  then show ?case by simp
next
  case (Suc n)
  from Suc.prems obtain e where e: "nt (length (calls w)) rq = Fails e"
    by force
  show ?case
  proof (cases "time_sleep clk d (w\<lparr>calls := calls w @ [rq]\<rparr>)")
    case (Inl e2)
    with e show ?thesis by (simp add: requests_get_def)
  next
    case (Inr w2)
    then have w2: "w2 = w\<lparr>calls := calls w @ [rq], sleeps := sleeps w @ [valof d]\<rparr>"
      by (auto simp: time_sleep_def split: option.splits)
    have a: "\<forall>i<n. \<exists>e. nt (length (calls w2) + i) rq = Fails e"
    proof (intro allI impI)
      fix i assume "i < n"
      then have "Suc i < Suc n" by simp
      with Suc.prems have "\<exists>e. nt (length (calls w) + Suc i) rq = Fails e" by blast
      then show "\<exists>e. nt (length (calls w2) + i) rq = Fails e" unfolding w2 by simp
    qed
    from Suc.IH [OF a] obtain e3 w3 where
      "retry_loop nt clk rq b n (fmul d b) (Some e) w2 = (Inl e3, w3)" by blast
    with e Inr show ?thesis by (simp add: requests_get_def)
  qed
qed

text \<open>When every attempt raises and every sleep returns, the last attempt is followed by a sleep too.\<close>

lemma retry_loop_all_fail:
  assumes "\<forall>i<n. \<exists>e. nt (length (calls w) + i) rq = Fails e"
    and "\<forall>k<n. sleep_error clk (length (sleeps w) + k) (nth_delay d b k) = None"
  shows "\<exists>e. retry_loop nt clk rq b n d last_exn w =
           (Inl e, \<lparr>calls = calls w @ replicate n rq,
                    sleeps = sleeps w @ map (\<lambda>k. valof (nth_delay d b k)) [0..<n]\<rparr>)"
  using assms
proof (induction n arbitrary: w d last_exn)
  case 0
  then show ?case by simp
next
  case (Suc n)
  from Suc.prems(1) obtain e where e: "nt (length (calls w)) rq = Fails e"
    by force
  from Suc.prems(2) have s0: "sleep_error clk (length (sleeps w)) d = None"
    by force
  let ?w2 = "w\<lparr>calls := calls w @ [rq], sleeps := sleeps w @ [valof d]\<rparr>"
  have a: "\<forall>i<n. \<exists>e. nt (length (calls ?w2) + i) rq = Fails e"
  proof (intro allI impI)
    fix i assume "i < n"
    then have "Suc i < Suc n" by simp
    with Suc.prems(1) have "\<exists>e. nt (length (calls w) + Suc i) rq = Fails e" by blast
    then show "\<exists>e. nt (length (calls ?w2) + i) rq = Fails e" by simp
  qed
  have c: "\<forall>k<n. sleep_error clk (length (sleeps ?w2) + k) (nth_delay (fmul d b) b k) = None"
  proof (intro allI impI)
    fix k assume "k < n"
    then have "Suc k < Suc n" by simp
    with Suc.prems(2)
    have "sleep_error clk (length (sleeps w) + Suc k) (nth_delay d b (Suc k)) = None" by blast
    then show "sleep_error clk (length (sleeps ?w2) + k) (nth_delay (fmul d b) b k) = None"
      by simp
  qed
  from Suc.IH [OF a c, of "Some e"] obtain e2 where
    ih: "retry_loop nt clk rq b n (fmul d b) (Some e) ?w2 =
           (Inl e2, \<lparr>calls = calls ?w2 @ replicate n rq,
                    sleeps = sleeps ?w2 @ map (\<lambda>k. valof (nth_delay (fmul d b) b k)) [0..<n]\<rparr>)"
    by blast
  have step: "retry_loop nt clk rq b (Suc n) d last_exn w =
          retry_loop nt clk rq b n (fmul d b) (Some e) ?w2"
    using e s0
    by (subst retry_loop.simps(2))
       (simp add: requests_get_def time_sleep_def del: retry_loop.simps)
  show ?case
    unfolding step ih map_nth_delay by (simp add: replicate_append_same)
qed

text \<open>The delays of a call with the default backoff: 1, 1.5 and 2.25 seconds, all exact.\<close>

lemma default_products:
  "fmul (Finite 1 0) default_backoff = Finite 3 (- 1)"
  "fmul (Finite 3 (- 1)) default_backoff = Finite 9 (- 2)"
  by code_simp+

lemma default_delays:
  "nth_delay (Finite 1 0) default_backoff 0 = Finite 1 0"
  "nth_delay (Finite 1 0) default_backoff (Suc 0) = Finite 3 (- 1)"
  "nth_delay (Finite 1 0) default_backoff (Suc (Suc 0)) = Finite 9 (- 2)"
  by (simp_all add: default_products)

lemma default_sleep_error:
  "sleep_error clk i (Finite 1 0) = clk i 1"
  "sleep_error clk i (Finite 3 (- 1)) = clk i (3 / 2)"
  "sleep_error clk i (Finite 9 (- 2)) = clk i (9 / 4)"
proof -
  have m: "fmul (Finite 1 0) (Finite 1000000000 0) = Finite 1000000000 0"
    "fmul (Finite 3 (- 1)) (Finite 1000000000 0) = Finite 3000000000 (- 1)"
    "fmul (Finite 9 (- 2)) (Finite 1000000000 0) = Finite 9000000000 (- 2)"
    by code_simp+
  show "sleep_error clk i (Finite 1 0) = clk i 1"
    "sleep_error clk i (Finite 3 (- 1)) = clk i (3 / 2)"
    "sleep_error clk i (Finite 9 (- 2)) = clk i (9 / 4)"
    unfolding sleep_error_def pyfloat.case m by (simp_all add: valof_def)
qed

lemma get_with_retry_three_fail:
  assumes "\<forall>i<3. \<exists>e. nt (length (calls w) + i)
             \<lparr>rq_url = url, rq_params = params, rq_headers = HEADERS, rq_timeout = timeout\<rparr> = Fails e"
    and "clk (length (sleeps w)) 1 = None"
    and "clk (length (sleeps w) + 1) (3 / 2) = None"
    and "clk (length (sleeps w) + 2) (9 / 4) = None"
  shows "\<exists>e. get_with_retry nt clk url params timeout 3 default_backoff w =
           (Inl e, \<lparr>calls = calls w @ replicate 3
                       \<lparr>rq_url = url, rq_params = params, rq_headers = HEADERS, rq_timeout = timeout\<rparr>,
                    sleeps = sleeps w @ [1, 3 / 2, 9 / 4]\<rparr>)"
proof -
  have n: "nat (max 1 3) = 3" by simp
  have m: "map (\<lambda>k. valof (nth_delay (Finite 1 0) default_backoff k)) [0..<3] = [1, 3 / 2, 9 / 4]"
    by (simp add: numeral_3_eq_3 default_products valof_def)
  have s: "\<forall>k<3. sleep_error clk (length (sleeps w) + k)
             (nth_delay (Finite 1 0) default_backoff k) = None"
  proof (intro allI impI)
    fix k :: nat assume "k < 3"
    then consider "k = 0" | "k = Suc 0" | "k = Suc (Suc 0)" by linarith
    then show "sleep_error clk (length (sleeps w) + k)
             (nth_delay (Finite 1 0) default_backoff k) = None"
      using assms(2,3,4) by cases (simp_all add: default_products default_sleep_error)
  qed
  from retry_loop_all_fail [where n = 3 and b = default_backoff and d = "Finite 1 0"
      and last_exn = None and nt = nt and w = w and clk = clk, OF assms(1) s]
  show ?thesis unfolding get_with_retry_def n m by simp
qed

lemma get_with_retry_all_fail_raises:
  assumes "\<forall>i<3. \<exists>e. nt (length (calls w) + i)
             \<lparr>rq_url = url, rq_params = params, rq_headers = HEADERS, rq_timeout = timeout\<rparr> = Fails e"
  shows "\<exists>e w1. get_with_retry nt clk url params timeout 3 b w = (Inl e, w1)"
proof -
  have n: "nat (max 1 3) = 3" by simp
  from retry_loop_all_fail_raises [where n = 3 and nt = nt and w = w, OF assms]
  show ?thesis unfolding get_with_retry_def n by blast
qed

section \<open>The claim on get_with_retry\<close>

text \<open>When every product is exact, the delay number \<open>k\<close> is \<open>d * b ^ k\<close>.\<close>

lemma exact_delays:
  assumes "\<forall>k<N. valof (fmul (nth_delay d b k) b) = valof (nth_delay d b k) * valof b"
  shows "k \<le> N \<Longrightarrow> valof (nth_delay d b k) = valof d * valof b ^ k"
proof (induction k)
  case 0
  show ?case by simp
next
  case (Suc k)
  then have "k < N" and ih: "valof (nth_delay d b k) = valof d * valof b ^ k" by simp_all
  with assms have "valof (fmul (nth_delay d b k) b) = valof (nth_delay d b k) * valof b" by blast
  then show ?case unfolding nth_delay_Suc ih by simp
qed

text \<open>
  C7, as the code has it: the GET raises on the first \<open>N\<close> calls and returns \<open>r\<close> on call
  \<open>N + 1\<close>, and \<open>time.sleep\<close> returns for each of the first \<open>N\<close> delays. Then
  \<open>get_with_retry\<close> with \<open>tries = N + 1\<close> returns \<open>r\<close>, issues \<open>N + 1\<close> GETs and sleeps
  exactly \<open>N\<close> times; the \<open>k\<close>-th sleep lasts the float got from the first delay
  \<open>d = 1.0\<close> of line 17 by \<open>k - 1\<close> float multiplications by the backoff \<open>b\<close>, which is
  \<open>d * b ^ (k - 1)\<close> when these products are exact.
\<close>

theorem get_with_retry_fail_N_then_ok:
  assumes "\<forall>i<N. \<exists>e. nt (length (calls w) + i) rq = Fails e"
    and "nt (length (calls w) + N) rq = Returns r"
    and "\<forall>k<N. sleep_error clk (length (sleeps w) + k) (nth_delay (Finite 1 0) b k) = None"
    and "rq = \<lparr>rq_url = url, rq_params = params, rq_headers = HEADERS, rq_timeout = timeout\<rparr>"
  shows "get_with_retry nt clk url params timeout (int N + 1) b w =
           (Inr r, \<lparr>calls = calls w @ replicate (N + 1) rq,
                    sleeps = sleeps w @ map (\<lambda>k. valof (nth_delay (Finite 1 0) b k)) [0..<N]\<rparr>)
         \<and> ((\<forall>k<N. valof (fmul (nth_delay (Finite 1 0) b k) b)
                       = valof (nth_delay (Finite 1 0) b k) * valof b)
              \<longrightarrow> (\<forall>k<N. valof (nth_delay (Finite 1 0) b k) = 1 * valof b ^ k))"
proof
  have n: "nat (max 1 (int N + 1)) = Suc N" by simp
  show "get_with_retry nt clk url params timeout (int N + 1) b w =
           (Inr r, \<lparr>calls = calls w @ replicate (N + 1) rq,
                    sleeps = sleeps w @ map (\<lambda>k. valof (nth_delay (Finite 1 0) b k)) [0..<N]\<rparr>)"
    unfolding get_with_retry_def n assms(4) [symmetric]
    using retry_loop_fail_then_ok [where N = N and nt = nt and w = w and rq = rq and r = r
        and b = b and d = "Finite 1 0" and last_exn = None and clk = clk] assms(1,2,3)
    by simp
next
  have one: "valof (Finite 1 0) = 1" by (simp add: valof_def)
  show "(\<forall>k<N. valof (fmul (nth_delay (Finite 1 0) b k) b)
                       = valof (nth_delay (Finite 1 0) b k) * valof b)
              \<longrightarrow> (\<forall>k<N. valof (nth_delay (Finite 1 0) b k) = 1 * valof b ^ k)"
  proof (intro impI allI)
    fix k
    assume e: "\<forall>k<N. valof (fmul (nth_delay (Finite 1 0) b k) b)
                       = valof (nth_delay (Finite 1 0) b k) * valof b"
      and k: "k < N"
    from k have "k \<le> N" by simp
    from exact_delays [OF e this] one
    show "valof (nth_delay (Finite 1 0) b k) = 1 * valof b ^ k" by simp
  qed
qed

text \<open>
  Witness of C7: two failures, then a response, with the default backoff 1.5: three
  GETs and the sleeps 1 and 1.5.
\<close>

theorem get_with_retry_fail_N_then_ok_witness:
  "ex_net_fail_then 2 (length (calls ex_world) + 2)
       \<lparr>rq_url = ''https://imslp.org/w/api.php'', rq_params = [], rq_headers = HEADERS,
        rq_timeout = 15\<rparr> = Returns ex_response
   \<and> sleep_error ex_clock (length (sleeps ex_world) + 1)
        (nth_delay (Finite 1 0) default_backoff 1) = None
   \<and> get_with_retry (ex_net_fail_then 2) ex_clock ''https://imslp.org/w/api.php'' [] 15 3
        default_backoff ex_world
     = (Inr ex_response,
        \<lparr>calls = replicate 3 \<lparr>rq_url = ''https://imslp.org/w/api.php'', rq_params = [],
                               rq_headers = HEADERS, rq_timeout = 15\<rparr>,
         sleeps = [1, 3 / 2]\<rparr>)"
proof -
  let ?rq = "\<lparr>rq_url = ''https://imslp.org/w/api.php'', rq_params = [], rq_headers = HEADERS,
        rq_timeout = 15\<rparr>"
  have h1: "\<forall>i<2. \<exists>e. ex_net_fail_then 2 (length (calls ex_world) + i) ?rq = Fails e"
    by (simp add: ex_net_fail_then_def ex_world_def)
  have h2: "ex_net_fail_then 2 (length (calls ex_world) + 2) ?rq = Returns ex_response"
    by (simp add: ex_net_fail_then_def ex_world_def)
  have s1: "sleep_error ex_clock (length (sleeps ex_world) + 1)
        (nth_delay (Finite 1 0) default_backoff 1) = None"
    by (simp add: default_products default_sleep_error ex_clock_def)
  have h3: "\<forall>k<2. sleep_error ex_clock (length (sleeps ex_world) + k)
        (nth_delay (Finite 1 0) default_backoff k) = None"
  proof (intro allI impI)
    fix k :: nat assume "k < 2"
    then consider "k = 0" | "k = Suc 0" by linarith
    then show "sleep_error ex_clock (length (sleeps ex_world) + k)
        (nth_delay (Finite 1 0) default_backoff k) = None"
      by cases (simp_all add: default_products default_sleep_error ex_clock_def)
  qed
  have m: "map (\<lambda>k. valof (nth_delay (Finite 1 0) default_backoff k)) [0..<2] = [1, 3 / 2]"
    by (simp add: numeral_2_eq_2 default_products valof_def)
  from get_with_retry_fail_N_then_ok [where N = 2 and nt = "ex_net_fail_then 2"
      and w = ex_world and clk = ex_clock and b = default_backoff and r = ex_response
      and url = "''https://imslp.org/w/api.php''" and params = "[]" and timeout = 15,
      OF h1 h2 h3 refl, THEN conjunct1]
  have "get_with_retry (ex_net_fail_then 2) ex_clock ''https://imslp.org/w/api.php'' [] 15 3
        default_backoff ex_world
     = (Inr ex_response, \<lparr>calls = replicate 3 ?rq, sleeps = [1, 3 / 2]\<rparr>)"
    unfolding m by (simp add: ex_world_def)
  with h2 s1 show ?thesis by blast
qed

lemma big_products:
  "fmul (Finite 1 0) (Finite 1000000 0) = Finite 1000000 0"
  "fmul (Finite 1000000 0) (Finite 1000000 0) = Finite 1000000000000 0"
  "fmul (Finite 1 0) (Finite 1000000000 0) = Finite 1000000000 0"
  "fmul (Finite 1000000 0) (Finite 1000000000 0) = Finite 1000000000000000 0"
  "fmul (Finite 1000000000000 0) (Finite 1000000000 0) = Finite 7629394531250000 17"
  by code_simp+

lemma tenth_products:
  "fmul (Finite 1 0) (Finite 3602879701896397 (- 55)) = Finite 3602879701896397 (- 55)"
  "fmul (Finite 3602879701896397 (- 55)) (Finite 3602879701896397 (- 55))
     = Finite 5764607523034236 (- 59)"
  "fmul (Finite 3602879701896397 (- 55)) (Finite 1000000000 0) = Finite 6710886400000000 (- 26)"
  "fmul (Finite 5764607523034236 (- 59)) (Finite 1000000000 0) = Finite 5368709120000001 (- 29)"
  by code_simp+

text \<open>
  Counterexample to C7 as stated, \<open>N = 3\<close>: the GET raises three times and returns on
  the fourth call. With the backoff \<open>10 ^ 6\<close> the third delay, \<open>10 ^ 12\<close> seconds, is more
  than \<open>time.sleep\<close> takes: it raises \<open>OverflowError\<close>, which leaves \<open>get_with_retry\<close>
  after three GETs and two sleeps. With the backoff \<open>0.1\<close> (the float
  \<open>3602879701896397 / 2 ^ 55\<close>) the call returns the response after three sleeps, and
  the third lasts the float product \<open>0.1 * 0.1\<close>, which is not \<open>d * b ^ 2\<close>.
\<close>

theorem get_with_retry_fail_N_then_ok_counterexample:
  "ex_net_fail_then 3 3 \<lparr>rq_url = ''https://imslp.org/w/api.php'', rq_params = [],
                          rq_headers = HEADERS, rq_timeout = 15\<rparr> = Returns ex_response
   \<and> get_with_retry (ex_net_fail_then 3) ex_clock ''https://imslp.org/w/api.php'' [] 15 4
        (Finite 1000000 0) ex_world
     = (Inl (OverflowError ''timestamp out of range for platform time_t''),
        \<lparr>calls = replicate 3 \<lparr>rq_url = ''https://imslp.org/w/api.php'', rq_params = [],
                               rq_headers = HEADERS, rq_timeout = 15\<rparr>,
         sleeps = [1, 1000000]\<rparr>)
   \<and> valof (Finite 3602879701896397 (- 55)) = 3602879701896397 / 2 ^ 55
   \<and> get_with_retry (ex_net_fail_then 3) ex_clock ''https://imslp.org/w/api.php'' [] 15 4
        (Finite 3602879701896397 (- 55)) ex_world
     = (Inr ex_response,
        \<lparr>calls = replicate 4 \<lparr>rq_url = ''https://imslp.org/w/api.php'', rq_params = [],
                               rq_headers = HEADERS, rq_timeout = 15\<rparr>,
         sleeps = [1, 3602879701896397 / 2 ^ 55, 5764607523034236 / 2 ^ 59]\<rparr>)
   \<and> (5764607523034236 / 2 ^ 59 :: real) \<noteq> 1 * (3602879701896397 / 2 ^ 55) ^ 2"
proof -
  have n: "nat (max 1 4) = Suc (Suc (Suc (Suc 0)))" by simp
  have a: "ex_net_fail_then 3 3 \<lparr>rq_url = ''https://imslp.org/w/api.php'', rq_params = [],
                          rq_headers = HEADERS, rq_timeout = 15\<rparr> = Returns ex_response"
    by (simp add: ex_net_fail_then_def)
  have b: "get_with_retry (ex_net_fail_then 3) ex_clock ''https://imslp.org/w/api.php'' [] 15 4
        (Finite 1000000 0) ex_world
     = (Inl (OverflowError ''timestamp out of range for platform time_t''),
        \<lparr>calls = replicate 3 \<lparr>rq_url = ''https://imslp.org/w/api.php'', rq_params = [],
                               rq_headers = HEADERS, rq_timeout = 15\<rparr>,
         sleeps = [1, 1000000]\<rparr>)"
    unfolding get_with_retry_def n
    by (simp add: requests_get_def time_sleep_def sleep_error_def big_products valof_def
          ex_net_fail_then_def ex_clock_def ex_world_def numeral_3_eq_3 del: fmul.simps)
  have c: "valof (Finite 3602879701896397 (- 55)) = 3602879701896397 / 2 ^ 55"
    by (simp add: valof_def)
  have d: "get_with_retry (ex_net_fail_then 3) ex_clock ''https://imslp.org/w/api.php'' [] 15 4
        (Finite 3602879701896397 (- 55)) ex_world
     = (Inr ex_response,
        \<lparr>calls = replicate 4 \<lparr>rq_url = ''https://imslp.org/w/api.php'', rq_params = [],
                               rq_headers = HEADERS, rq_timeout = 15\<rparr>,
         sleeps = [1, 3602879701896397 / 2 ^ 55, 5764607523034236 / 2 ^ 59]\<rparr>)"
    unfolding get_with_retry_def n
    by (simp add: requests_get_def time_sleep_def sleep_error_def tenth_products big_products
          valof_def ex_net_fail_then_def ex_clock_def ex_world_def numeral_3_eq_3
          eval_nat_numeral del: fmul.simps)
  have e: "(5764607523034236 / 2 ^ 59 :: real) \<noteq> 1 * (3602879701896397 / 2 ^ 55) ^ 2"
    by (simp add: power2_eq_square field_simps)
  from a b c d e show ?thesis by blast
qed

section \<open>Properties of the seed phase\<close>

lemma seed_file_title: "seed_file img = Inr (f, t) \<Longrightarrow> t = f_title f"
  by (auto simp: seed_file_def Let_def split: sum.splits)

lemma seed_file_use_title:
  "seed_file img = Inr (f, t) \<Longrightarrow>
     \<exists>name title. getattr (img_name img) PNone = Inr name
       \<and> getattr (img_page_title img) PNone = Inr title
       \<and> f_name f = name \<and> f_title f = (if truthy name then name else title)"
  by (auto simp: seed_file_def Let_def py_or_def split: sum.splits)




text \<open>The loop appends, image by image, what \<open>seed_file\<close> returns.\<close>

lemma seed_loop_results:
  "seed_loop imgs acc ts = Inr (fs, titles) \<Longrightarrow>
     \<exists>rs. list_all2 (\<lambda>img r. seed_file img = Inr r) imgs rs
       \<and> fs = acc @ map fst rs \<and> titles = ts @ filter truthy (map snd rs)"
proof (induction imgs arbitrary: acc ts)
  case Nil
  then show ?case by simp
next
  case (Cons img imgs)
  from Cons.prems obtain f t where ft: "seed_file img = Inr (f, t)"
    and rest: "seed_loop imgs (acc @ [f]) (if truthy t then ts @ [t] else ts) = Inr (fs, titles)"
    by (auto split: sum.splits)
  from Cons.IH [OF rest] obtain rs where
    rs: "list_all2 (\<lambda>img r. seed_file img = Inr r) imgs rs"
      "fs = (acc @ [f]) @ map fst rs"
      "titles = (if truthy t then ts @ [t] else ts) @ filter truthy (map snd rs)"
    by blast
  show ?case
    by (rule exI [of _ "(f, t) # rs"]) (use ft rs in auto)
qed

section \<open>Properties of the reconciliation\<close>

lemma merge_fields_title [simp]: "f_title (merge_fields kvs f) = f_title f"
  by (simp add: merge_fields_def)

lemma merge_fields_name [simp]: "f_name (merge_fields kvs f) = f_name f"
  by (simp add: merge_fields_def)

lemma merge_fields_idem: "merge_fields kvs (merge_fields kvs f) = merge_fields kvs f"
  by (simp add: merge_fields_def py_or_def)

lemma merge_fields_download_urls:
  "merge_fields kvs (f\<lparr>f_download_urls := d\<rparr>) = (merge_fields kvs f)\<lparr>f_download_urls := d\<rparr>"
  by (simp add: merge_fields_def)

lemma merge_info_title: "f_title (fst (merge_info info f)) = f_title f"
  by (cases info; cases "https_of (info_get info ''url'')")
     (simp_all add: merge_info_def Let_def info_get_def)

lemma merge_info_idem: "merge_info info (fst (merge_info info f)) = merge_info info f"
proof (cases info)
  case (PDict kvs)
  show ?thesis
    by (cases "https_of (dict_get kvs ''url'' PNone)")
       (simp_all add: PDict merge_info_def Let_def merge_fields_idem merge_fields_download_urls)
qed (simp_all add: merge_info_def)

lemma merge_file_title: "f_title (fst (merge_file bt f)) = f_title f"
  by (cases "by_title_get bt (f_title f)") (simp_all add: merge_file_def merge_info_title)

lemma merge_file_idem: "merge_file bt (fst (merge_file bt f)) = merge_file bt f"
proof (cases "by_title_get bt (f_title f)")
  case (Inl e)
  then show ?thesis by (simp add: merge_file_def)
next
  case (Inr info)
  show ?thesis
  proof (cases "truthy info")
    case True
    have "merge_file bt f = merge_info info f"
      using Inr True by (simp add: merge_file_def)
    moreover have "merge_file bt (fst (merge_info info f)) =
        merge_info info (fst (merge_info info f))"
      using Inr True by (simp add: merge_file_def merge_info_title)
    ultimately show ?thesis by (simp add: merge_info_idem)
  next
    case False
    then show ?thesis using Inr by (simp add: merge_file_def)
  qed
qed

lemma merge_loop_idem: "merge_loop bt (fst (merge_loop bt fs)) = merge_loop bt fs"
proof (induction fs)
  case Nil
  show ?case by simp
next
  case (Cons f fs)
  obtain f1 r where m: "merge_file bt f = (f1, r)" by (cases "merge_file bt f")
  then have i: "merge_file bt f1 = (f1, r)" using merge_file_idem [of bt f] by simp
  show ?case
  proof (cases r)
    case None
    obtain fs1 r1 where l: "merge_loop bt fs = (fs1, r1)" by (cases "merge_loop bt fs")
    with Cons.IH have "merge_loop bt fs1 = (fs1, r1)" by simp
    with m i l None show ?thesis by simp
  next
    case (Some e)
    with m i show ?thesis by simp
  qed
qed

lemma merge_loop_titles: "map f_title (fst (merge_loop bt fs)) = map f_title fs"
proof (induction fs)
  case Nil
  show ?case by simp
next
  case (Cons f fs)
  obtain f1 r where m: "merge_file bt f = (f1, r)" by (cases "merge_file bt f")
  then have t: "f_title f1 = f_title f" using merge_file_title [of bt f] by simp
  show ?case using m t Cons.IH
    by (cases r; cases "merge_loop bt fs") auto
qed

section \<open>Properties of the batched lookup\<close>

lemma chunk_loop_append:
  "chunk_loop nt clk pre bt w = (Inr bt1, w1) \<Longrightarrow>
     chunk_loop nt clk (pre @ post) bt w = chunk_loop nt clk post bt1 w1"
proof (induction pre arbitrary: bt w)
  case Nil
  then show ?case by simp
next
  case (Cons c pre)
  then show ?case
    by (auto split: sum.splits prod.splits if_splits)
qed

lemma chunks_of_Nil: "chunks_of [] = []"
  by (simp add: chunks_of_def py_range_def)

section \<open>Properties of the document\<close>

lemma try_revision_history_keeps:
  "md_files (try_revision_history pg md) = md_files md"
  "md_files_error (try_revision_history pg md) = md_files_error md"
  "md_basic_info (try_revision_history pg md) = md_basic_info md"
  "md_basic_info_error (try_revision_history pg md) = md_basic_info_error md"
  "md_categories (try_revision_history pg md) = md_categories md"
  "md_categories_error (try_revision_history pg md) = md_categories_error md"
  by (simp_all add: try_revision_history_def split: sum.splits prod.splits option.splits)

lemma try_files_keeps:
  "md_basic_info (fst (try_files nt clk pg md w)) = md_basic_info md"
  "md_basic_info_error (fst (try_files nt clk pg md w)) = md_basic_info_error md"
  "md_categories (fst (try_files nt clk pg md w)) = md_categories md"
  "md_categories_error (fst (try_files nt clk pg md w)) = md_categories_error md"
  "md_revision_history (fst (try_files nt clk pg md w)) = md_revision_history md"
  "md_revision_history_error (fst (try_files nt clk pg md w)) = md_revision_history_error md"
  by (simp_all add: try_files_def split: sum.splits prod.splits)

lemma try_categories_keeps:
  "md_basic_info (try_categories pg md) = md_basic_info md"
  "md_basic_info_error (try_categories pg md) = md_basic_info_error md"
  "md_files (try_categories pg md) = md_files md"
  "md_files_error (try_categories pg md) = md_files_error md"
  "md_revision_history (try_categories pg md) = md_revision_history md"
  "md_revision_history_error (try_categories pg md) = md_revision_history_error md"
  by (simp_all add: try_categories_def split: sum.splits)

lemma try_basic_info_keeps:
  "md_categories (try_basic_info pg md) = md_categories md"
  "md_categories_error (try_basic_info pg md) = md_categories_error md"
  "md_files (try_basic_info pg md) = md_files md"
  "md_files_error (try_basic_info pg md) = md_files_error md"
  "md_revision_history (try_basic_info pg md) = md_revision_history md"
  "md_revision_history_error (try_basic_info pg md) = md_revision_history_error md"
  by (simp_all add: try_basic_info_def split: sum.splits)

lemmas try_keeps = try_revision_history_keeps try_files_keeps try_categories_keeps
  try_basic_info_keeps

lemma build_metadata_fst:
  "fst (build_metadata nt clk title pg w) =
     try_revision_history pg
       (fst (try_files nt clk pg (try_categories pg (try_basic_info pg (initial_metadata title pg))) w))"
  by (simp add: build_metadata_def split: prod.splits)

lemma build_metadata_snd:
  "snd (build_metadata nt clk title pg w) = snd (files_section nt clk (pg_images pg) w)"
  by (simp add: build_metadata_def try_files_def split: prod.splits sum.splits)

lemma build_basic_info:
  "md_basic_info (fst (build_metadata nt clk title pg w)) =
     (case basic_info_section pg of Inl e \<Rightarrow> [] | Inr d \<Rightarrow> d)"
  "md_basic_info_error (fst (build_metadata nt clk title pg w)) =
     (case basic_info_section pg of Inl e \<Rightarrow> Some (str_exn e) | Inr d \<Rightarrow> None)"
  by (simp_all add: build_metadata_fst try_keeps try_basic_info_def initial_metadata_def
        split: sum.splits)

lemma build_categories:
  "md_categories (fst (build_metadata nt clk title pg w)) =
     (case categories_section pg of Inl e \<Rightarrow> [] | Inr c \<Rightarrow> c)"
  "md_categories_error (fst (build_metadata nt clk title pg w)) =
     (case categories_section pg of Inl e \<Rightarrow> Some (str_exn e) | Inr c \<Rightarrow> None)"
  by (simp_all add: build_metadata_fst try_keeps try_categories_def try_basic_info_def
        initial_metadata_def split: sum.splits)

lemma build_files:
  "md_files (fst (build_metadata nt clk title pg w)) =
     (case fst (files_section nt clk (pg_images pg) w) of Inl e \<Rightarrow> [] | Inr fs \<Rightarrow> fs)"
  "md_files_error (fst (build_metadata nt clk title pg w)) =
     (case fst (files_section nt clk (pg_images pg) w) of Inl e \<Rightarrow> Some (str_exn e) | Inr fs \<Rightarrow> None)"
  by (simp_all add: build_metadata_fst try_keeps try_files_def try_categories_def
        try_basic_info_def initial_metadata_def split: sum.splits prod.splits)

lemma build_revision_history:
  "(md_revision_history (fst (build_metadata nt clk title pg w)),
    md_revision_history_error (fst (build_metadata nt clk title pg w))) =
     (case pg_revisions pg of
        Inl e \<Rightarrow> ([], Some (str_exn e))
      | Inr revs \<Rightarrow> (case revision_loop (take 5 revs) [] of (rh, r) \<Rightarrow> (rh, map_option str_exn r)))"
  by (simp add: build_metadata_fst try_revision_history_def try_keeps initial_metadata_def
        split: sum.splits prod.splits option.splits)

lemma files_section_images_fail:
  "files_section nt clk (Inl e) w = (Inr [], w)"
  by (simp add: files_section_def batched_phase_def)

section \<open>The claims on the seed phase\<close>




lemma startswith_append: "startswith s p \<Longrightarrow> s = p @ drop (length p) s"
  by (metis append_take_drop_id startswith_def)




lemmas seed_eval = seed_file_def getattr_def info_get_def dict_get_def py_or_def
   https_of_def direct_of_def startswith_def Let_def ex_image_def ex_file_def ex_seeded_def




text \<open>
  C4, as the code has it: the seed phase builds one record per image of the listing
  cut to its first 100; the \<open>title\<close> of a record is the image's \<open>name\<close> when that is
  truthy and its \<open>page_title\<close> otherwise; the merge keys are the truthy titles in listing
  order, repeated when an image repeats, at most 100; the reconciliation never changes a
  \<open>title\<close>.
\<close>

theorem seed_titles:
  assumes "imgs = take 100 xs" and "seed_loop imgs [] [] = Inr (fs, titles)"
  shows "length fs = length imgs \<and>
         (\<forall>i<length imgs. \<exists>name title.
            getattr (img_name (imgs ! i)) PNone = Inr name \<and>
            getattr (img_page_title (imgs ! i)) PNone = Inr title \<and>
            f_title (fs ! i) = (if truthy name then name else title)) \<and>
         titles = filter truthy (map f_title fs) \<and>
         length titles \<le> 100 \<and>
         (\<forall>bt. map f_title (fst (merge_loop bt fs)) = map f_title fs)"
proof -
  from seed_loop_results [OF assms(2)] obtain rs where
    rs: "list_all2 (\<lambda>img r. seed_file img = Inr r) imgs rs" "fs = map fst rs"
      "titles = filter truthy (map snd rs)"
    by auto
  have len: "length rs = length imgs" using rs(1) by (simp add: list_all2_lengthD)
  have each: "seed_file (imgs ! i) = Inr (fs ! i, f_title (fs ! i))
                \<and> snd (rs ! i) = f_title (fs ! i)"
    if "i < length imgs" for i
  proof -
    from that rs(1) have "seed_file (imgs ! i) = Inr (rs ! i)"
      by (simp add: list_all2_conv_all_nth)
    then have a: "seed_file (imgs ! i) = Inr (fst (rs ! i), snd (rs ! i))" by simp
    from seed_file_title [OF a] a that len rs(2) show ?thesis by simp
  qed
  have snd_eq: "map snd rs = map f_title fs"
    by (rule nth_equalityI) (use len rs(2) each in auto)
  have l1: "length fs = length imgs" using len rs(2) by simp
  have l2: "length titles \<le> 100"
  proof -
    have "length titles \<le> length rs" unfolding rs(3)
      using length_filter_le [of truthy "map snd rs"] by simp
    also have "\<dots> \<le> 100" using len assms(1) by simp
    finally show ?thesis .
  qed
  have t: "\<exists>name title. getattr (img_name (imgs ! i)) PNone = Inr name \<and>
            getattr (img_page_title (imgs ! i)) PNone = Inr title \<and>
            f_title (fs ! i) = (if truthy name then name else title)"
    if "i < length imgs" for i
    using seed_file_use_title [of "imgs ! i" "fs ! i" "f_title (fs ! i)"] each [OF that]
    by blast
  show ?thesis
    using l1 l2 t rs(3) snd_eq merge_loop_titles by simp
qed

text \<open>Witness of C4: one image, named \<open>File:X.pdf\<close>, with the page title \<open>X.pdf\<close>.\<close>

theorem seed_titles_witness:
  "[ex_image ''http://imslp.org/x.pdf''] = take 100 [ex_image ''http://imslp.org/x.pdf'']
   \<and> seed_loop [ex_image ''http://imslp.org/x.pdf''] [] [] = Inr ([ex_seeded], [PStr ''File:X.pdf''])
   \<and> length [ex_seeded] = length [ex_image ''http://imslp.org/x.pdf'']
   \<and> [PStr ''File:X.pdf''] = filter truthy (map f_title [ex_seeded])
   \<and> f_title ex_seeded = PStr ''File:X.pdf''"
proof -
  have h1: "[ex_image ''http://imslp.org/x.pdf''] = take 100 [ex_image ''http://imslp.org/x.pdf'']"
    by simp
  have h2: "seed_loop [ex_image ''http://imslp.org/x.pdf''] [] []
              = Inr ([ex_seeded], [PStr ''File:X.pdf''])"
    by (simp add: seed_eval)
  note c = seed_titles [OF h1 h2]
  have c1: "length [ex_seeded] = length [ex_image ''http://imslp.org/x.pdf'']"
    using c by (rule conjunct1)
  have c3: "[PStr ''File:X.pdf''] = filter truthy (map f_title [ex_seeded])"
    using c by blast
  have v: "f_title ex_seeded = PStr ''File:X.pdf''"
    by (simp add: ex_seeded_def ex_file_def)
  from h1 h2 c1 c3 v show ?thesis by blast
qed

text \<open>
  Counterexample to C4 as stated: an image whose page title \<open>X.pdf\<close> is present gets
  the title \<open>File:X.pdf\<close>, its name; listed twice, it gives the same merge key twice.
\<close>

theorem seed_titles_counterexample:
  "seed_loop [ex_image ''http://imslp.org/x.pdf'', ex_image ''http://imslp.org/x.pdf''] [] [] =
     Inr ([ex_seeded, ex_seeded], [PStr ''File:X.pdf'', PStr ''File:X.pdf''])
   \<and> img_page_title (ex_image ''http://imslp.org/x.pdf'') = Inr (PStr ''X.pdf'')
   \<and> f_title ex_seeded \<noteq> PStr ''X.pdf''
   \<and> \<not> distinct [PStr ''File:X.pdf'', PStr ''File:X.pdf'']"
  by (simp add: seed_eval)

section \<open>The claims on the reconciliation\<close>

lemmas merge_eval = merge_file_def by_title_get_def merge_info_def merge_fields_def
   dict_get_def py_or_def https_of_def startswith_def Let_def
   ex_by_title_def ex_file_def ex_seeded_def

text \<open>A loop that raises nothing has run \<open>merge_file\<close> on every record.\<close>

lemma merge_loop_no_exn:
  "merge_loop bt fs = (gs, None) \<Longrightarrow>
     gs = map (\<lambda>f. fst (merge_file bt f)) fs \<and> (\<forall>f\<in>set fs. snd (merge_file bt f) = None)"
proof (induction fs arbitrary: gs)
  case Nil
  then show ?case by simp
next
  case (Cons f fs)
  obtain f1 r where m: "merge_file bt f = (f1, r)" by (cases "merge_file bt f")
  obtain fs1 r1 where l: "merge_loop bt fs = (fs1, r1)" by (cases "merge_loop bt fs")
  from Cons.prems m l have r: "r = None" and r1: "r1 = None" and gs: "gs = f1 # fs1"
    by (auto split: option.splits)
  from Cons.IH [of fs1] l r1
  have "fs1 = map (\<lambda>f. fst (merge_file bt f)) fs \<and> (\<forall>f\<in>set fs. snd (merge_file bt f) = None)"
    by simp
  with m r gs show ?case by simp
qed

lemma merge_file_matched:
  assumes "by_title_get bt (f_title f) = Inr info" and "truthy info"
    and "snd (merge_file bt f) = None"
  shows "\<exists>kvs h. info = PDict kvs \<and> https_of (dict_get kvs ''url'' PNone) = Inr h \<and>
     fst (merge_file bt f) =
       (merge_fields kvs f)\<lparr>f_download_urls :=
          \<lparr>original = dict_get kvs ''url'' PNone, https = h,
           direct = dict_get kvs ''url'' PNone\<rparr>\<rparr>"
proof -
  have m: "merge_file bt f = merge_info info f"
    using assms(1,2) by (simp add: merge_file_def)
  show ?thesis
  proof (cases info)
    case (PDict kvs)
    obtain h where h: "https_of (dict_get kvs ''url'' PNone) = Inr h"
      using assms(3) m PDict
      by (cases "https_of (dict_get kvs ''url'' PNone)") (simp_all add: merge_info_def Let_def)
    then show ?thesis
      unfolding m PDict by (simp add: merge_info_def Let_def)
  qed (use assms(3) m in \<open>simp_all add: merge_info_def\<close>)
qed

lemma merge_file_unmatched:
  "by_title_get bt (f_title f) = Inr info \<Longrightarrow> \<not> truthy info \<Longrightarrow> merge_file bt f = (f, None)"
  by (simp add: merge_file_def)

text \<open>
  C2, as the code has it: in a reconciliation that raises nothing, a record whose title
  is no key of the mapping is unchanged; for a record whose title is mapped to a truthy
  info, \<open>url\<close>, \<open>mime_type\<close>, \<open>timestamp\<close>, \<open>user\<close> and \<open>sha1\<close> take the batched value when
  it is truthy (not null, not empty, not zero) and keep the seed value otherwise, and
  \<open>size\<close> takes the batched value when it is not null; \<open>name\<close> and \<open>title\<close> stay.
\<close>

theorem reconciliation_fields:
  assumes "merge_loop bt fs = (gs, None)" and "i < length fs"
    and "dict_key (f_title (fs ! i)) = Inr k"
  shows "(bt k = None \<longrightarrow> gs ! i = fs ! i) \<and>
         (\<forall>info. bt k = Some info \<and> truthy info \<longrightarrow>
            (\<exists>kvs. info = PDict kvs \<and>
               f_url (gs ! i) = (if truthy (dict_get kvs ''url'' PNone)
                                 then dict_get kvs ''url'' PNone else f_url (fs ! i)) \<and>
               f_mime_type (gs ! i) = (if truthy (dict_get kvs ''mime'' PNone)
                                 then dict_get kvs ''mime'' PNone else f_mime_type (fs ! i)) \<and>
               f_timestamp (gs ! i) = (if truthy (dict_get kvs ''timestamp'' PNone)
                                 then dict_get kvs ''timestamp'' PNone else f_timestamp (fs ! i)) \<and>
               f_user (gs ! i) = (if truthy (dict_get kvs ''user'' PNone)
                                 then dict_get kvs ''user'' PNone else f_user (fs ! i)) \<and>
               f_sha1 (gs ! i) = (if truthy (dict_get kvs ''sha1'' PNone)
                                 then dict_get kvs ''sha1'' PNone else f_sha1 (fs ! i)) \<and>
               f_size (gs ! i) = (if dict_get kvs ''size'' PNone \<noteq> PNone
                                 then dict_get kvs ''size'' PNone else f_size (fs ! i)) \<and>
               f_name (gs ! i) = f_name (fs ! i) \<and> f_title (gs ! i) = f_title (fs ! i)))"
proof -
  from merge_loop_no_exn [OF assms(1)] assms(2)
  have g: "gs ! i = fst (merge_file bt (fs ! i))" and n: "snd (merge_file bt (fs ! i)) = None"
    by simp_all
  have a: "gs ! i = fs ! i" if "bt k = None"
    using merge_file_unmatched [of bt "fs ! i" PNone] assms(3) that g
    by (simp add: by_title_get_def)
  have b: "\<exists>kvs dl. info = PDict kvs
             \<and> gs ! i = (merge_fields kvs (fs ! i))\<lparr>f_download_urls := dl\<rparr>"
    if "bt k = Some info" "truthy info" for info
  proof -
    have "by_title_get bt (f_title (fs ! i)) = Inr info"
      using assms(3) that(1) by (simp add: by_title_get_def)
    from merge_file_matched [OF this that(2) n] show ?thesis
      unfolding g by blast
  qed
  show ?thesis
  proof (intro conjI allI impI)
    assume "bt k = None" then show "gs ! i = fs ! i" by (rule a)
  next
    fix info assume "bt k = Some info \<and> truthy info"
    with b obtain kvs dl where k: "info = PDict kvs"
      "gs ! i = (merge_fields kvs (fs ! i))\<lparr>f_download_urls := dl\<rparr>"
      by blast
    show "\<exists>kvs. info = PDict kvs \<and>
               f_url (gs ! i) = (if truthy (dict_get kvs ''url'' PNone)
                                 then dict_get kvs ''url'' PNone else f_url (fs ! i)) \<and>
               f_mime_type (gs ! i) = (if truthy (dict_get kvs ''mime'' PNone)
                                 then dict_get kvs ''mime'' PNone else f_mime_type (fs ! i)) \<and>
               f_timestamp (gs ! i) = (if truthy (dict_get kvs ''timestamp'' PNone)
                                 then dict_get kvs ''timestamp'' PNone else f_timestamp (fs ! i)) \<and>
               f_user (gs ! i) = (if truthy (dict_get kvs ''user'' PNone)
                                 then dict_get kvs ''user'' PNone else f_user (fs ! i)) \<and>
               f_sha1 (gs ! i) = (if truthy (dict_get kvs ''sha1'' PNone)
                                 then dict_get kvs ''sha1'' PNone else f_sha1 (fs ! i)) \<and>
               f_size (gs ! i) = (if dict_get kvs ''size'' PNone \<noteq> PNone
                                 then dict_get kvs ''size'' PNone else f_size (fs ! i)) \<and>
               f_name (gs ! i) = f_name (fs ! i) \<and> f_title (gs ! i) = f_title (fs ! i)"
      by (rule exI [of _ kvs]) (simp add: k merge_fields_def py_or_def)
  qed
qed

text \<open>
  Witness of C2: the record of scenario D, matched by an info with a url and a size.
\<close>

theorem reconciliation_fields_witness:
  "merge_loop (ex_by_title [(''url'', PStr ''https://imslp.org/y.pdf''), (''size'', PInt 10)])
       [ex_seeded]
     = ([ex_file (PStr ''https://imslp.org/y.pdf'') (PInt 10) PNone
           \<lparr>original = PStr ''https://imslp.org/y.pdf'', https = PStr ''https://imslp.org/y.pdf'',
            direct = PStr ''https://imslp.org/y.pdf''\<rparr>], None)
   \<and> (0::nat) < length [ex_seeded]
   \<and> dict_key (f_title ([ex_seeded] ! 0)) = Inr (PStr ''File:X.pdf'')
   \<and> ex_by_title [(''url'', PStr ''https://imslp.org/y.pdf''), (''size'', PInt 10)]
        (PStr ''File:X.pdf'')
       = Some (PDict [(''url'', PStr ''https://imslp.org/y.pdf''), (''size'', PInt 10)])
   \<and> f_url ([ex_file (PStr ''https://imslp.org/y.pdf'') (PInt 10) PNone
           \<lparr>original = PStr ''https://imslp.org/y.pdf'', https = PStr ''https://imslp.org/y.pdf'',
            direct = PStr ''https://imslp.org/y.pdf''\<rparr>] ! 0) = PStr ''https://imslp.org/y.pdf''
   \<and> f_size ([ex_file (PStr ''https://imslp.org/y.pdf'') (PInt 10) PNone
           \<lparr>original = PStr ''https://imslp.org/y.pdf'', https = PStr ''https://imslp.org/y.pdf'',
            direct = PStr ''https://imslp.org/y.pdf''\<rparr>] ! 0) = PInt 10"
proof -
  let ?kvs = "[(''url'', PStr ''https://imslp.org/y.pdf''), (''size'', PInt 10)]"
  let ?gs = "[ex_file (PStr ''https://imslp.org/y.pdf'') (PInt 10) PNone
           \<lparr>original = PStr ''https://imslp.org/y.pdf'', https = PStr ''https://imslp.org/y.pdf'',
            direct = PStr ''https://imslp.org/y.pdf''\<rparr>]"
  have h1: "merge_loop (ex_by_title ?kvs) [ex_seeded] = (?gs, None)"
    by (simp add: merge_eval)
  have h2: "(0::nat) < length [ex_seeded]" by simp
  have h3: "dict_key (f_title ([ex_seeded] ! 0)) = Inr (PStr ''File:X.pdf'')"
    by (simp add: ex_seeded_def ex_file_def)
  have m: "ex_by_title ?kvs (PStr ''File:X.pdf'') = Some (PDict ?kvs) \<and> truthy (PDict ?kvs)"
    by (simp add: ex_by_title_def)
  from reconciliation_fields [OF h1 h2 h3, THEN conjunct2, rule_format, OF m]
  obtain kvs where k: "PDict ?kvs = PDict kvs"
    and u: "f_url (?gs ! 0) = (if truthy (dict_get kvs ''url'' PNone)
                              then dict_get kvs ''url'' PNone else f_url ([ex_seeded] ! 0))"
    and z: "f_size (?gs ! 0) = (if dict_get kvs ''size'' PNone \<noteq> PNone
                              then dict_get kvs ''size'' PNone else f_size ([ex_seeded] ! 0))"
    by blast
  from k have k': "kvs = ?kvs" by simp
  have u': "f_url (?gs ! 0) = PStr ''https://imslp.org/y.pdf''"
    using u unfolding k' by (simp add: dict_get_def)
  have z': "f_size (?gs ! 0) = PInt 10"
    using z unfolding k' by (simp add: dict_get_def)
  from h1 h2 h3 m u' z' show ?thesis by blast
qed

text \<open>
  Counterexample to C2 as stated: the batched \<open>user\<close> is the empty string, which is not
  null, and the record keeps the seed value \<open>Editor\<close>.
\<close>

theorem reconciliation_fields_counterexample:
  "merge_loop (ex_by_title [(''url'', PStr ''https://imslp.org/y.pdf''), (''user'', PStr '''')])
       [ex_file (PStr ''http://imslp.org/x.pdf'') PNone (PStr ''Editor'')
          \<lparr>original = PStr ''http://imslp.org/x.pdf'', https = PStr ''https://imslp.org/x.pdf'',
           direct = PStr ''http://imslp.org/x.pdf''\<rparr>]
     = ([ex_file (PStr ''https://imslp.org/y.pdf'') PNone (PStr ''Editor'')
           \<lparr>original = PStr ''https://imslp.org/y.pdf'', https = PStr ''https://imslp.org/y.pdf'',
            direct = PStr ''https://imslp.org/y.pdf''\<rparr>], None)
   \<and> dict_get [(''url'', PStr ''https://imslp.org/y.pdf''), (''user'', PStr '''')] ''user'' PNone
       = PStr ''''
   \<and> PStr '''' \<noteq> PNone \<and> PStr ''Editor'' \<noteq> PStr ''''"
  by (simp add: merge_eval)

text \<open>
  C3 at the failing input: the record of scenario D is matched by an info that has a
  size and no url. The record keeps its url \<open>http://imslp.org/x.pdf\<close>, and its
  \<open>download_urls\<close> are computed from the absent batched url: all three are null.
\<close>

theorem reconciliation_download_urls_without_remote_url:
  "merge_loop (ex_by_title [(''size'', PInt 10)]) [ex_seeded]
     = ([ex_file (PStr ''http://imslp.org/x.pdf'') (PInt 10) PNone
           \<lparr>original = PNone, https = PNone, direct = PNone\<rparr>], None)"
  by (simp add: merge_eval)

text \<open>
  C9: the reconciliation is idempotent. For every list of records and every mapping,
  running the loop of line 167 on its own result gives the same records (also when the
  loop stops at an exception).
\<close>

theorem reconciliation_idempotent:
  "fst (merge_loop bt (fst (merge_loop bt fs))) = fst (merge_loop bt fs)"
  by (simp add: merge_loop_idem)

section \<open>The claims on the sections\<close>

text \<open>The first image whose record raises ends the seed loop with that exception.\<close>

lemma seed_loop_first_failure:
  "i < length imgs \<Longrightarrow> seed_file (imgs ! i) = Inl e \<Longrightarrow>
     \<forall>j<i. \<exists>r. seed_file (imgs ! j) = Inr r \<Longrightarrow> seed_loop imgs acc ts = Inl e"
proof (induction imgs arbitrary: i acc ts)
  case Nil
  then show ?case by simp
next
  case (Cons img imgs)
  show ?case
  proof (cases i)
    case 0
    with Cons.prems show ?thesis by simp
  next
    case (Suc k)
    from Cons.prems(3) Suc obtain f t where ft: "seed_file img = Inr (f, t)"
      by fastforce
    have k: "k < length imgs" "seed_file (imgs ! k) = Inl e"
      using Cons.prems(1,2) Suc by simp_all
    have a: "\<forall>j<k. \<exists>r. seed_file (imgs ! j) = Inr r"
    proof (intro allI impI)
      fix j assume "j < k"
      then have "Suc j < i" using Suc by simp
      with Cons.prems(3) have "\<exists>r. seed_file ((img # imgs) ! Suc j) = Inr r" by blast
      then show "\<exists>r. seed_file (imgs ! j) = Inr r" by simp
    qed
    show ?thesis
      using ft Cons.IH [OF k a] by simp
  qed
qed

lemma files_section_seed_failure:
  "seed_loop (case images of Inl e \<Rightarrow> [] | Inr xs \<Rightarrow> take 100 xs) [] [] = Inl e \<Longrightarrow>
     files_section nt clk images w = (Inl e, w)"
  by (simp add: files_section_def)

lemma files_section_seeded:
  "seed_loop (case images of Inl e \<Rightarrow> [] | Inr xs \<Rightarrow> take 100 xs) [] [] = Inr (temp_files, titles) \<Longrightarrow>
     fst (files_section nt clk images w) = Inr (fst (batched_phase nt clk titles temp_files w))"
  by (simp add: files_section_def split: prod.splits)

lemma batched_phase_titles:
  "map f_title (fst (batched_phase nt clk titles temp_files w)) = map f_title temp_files"
  by (simp add: batched_phase_def merge_loop_titles split: prod.splits sum.splits)

text \<open>
  When every attempt raises, the call raises after at most \<open>n\<close> GETs, all of the same
  request, whatever the clock does.
\<close>

lemma retry_loop_all_fail_world:
  assumes "\<forall>i<n. \<exists>e. nt (length (calls w) + i) rq = Fails e"
  shows "\<exists>e m sl. m \<le> n \<and> retry_loop nt clk rq b n d last_exn w =
           (Inl e, \<lparr>calls = calls w @ replicate m rq, sleeps = sleeps w @ sl\<rparr>)"
  using assms
proof (induction n arbitrary: w d last_exn)
  case 0
  have "retry_loop nt clk rq b 0 d last_exn w =
          (Inl (case last_exn of Some e \<Rightarrow> e | None \<Rightarrow> Exception ''request failed''),
           \<lparr>calls = calls w @ replicate 0 rq, sleeps = sleeps w @ []\<rparr>)"
    by simp
  then show ?case by blast
next
  case (Suc n)
  from Suc.prems obtain e where e: "nt (length (calls w)) rq = Fails e"
    by force
  show ?case
  proof (cases "time_sleep clk d (w\<lparr>calls := calls w @ [rq]\<rparr>)")
    case (Inl e2)
    with e have "retry_loop nt clk rq b (Suc n) d last_exn w =
        (Inl e2, \<lparr>calls = calls w @ replicate (Suc 0) rq, sleeps = sleeps w @ []\<rparr>)"
      by (simp add: requests_get_def)
    moreover have "Suc 0 \<le> Suc n" by simp
    ultimately show ?thesis by blast
  next
    case (Inr w2)
    then have w2: "w2 = w\<lparr>calls := calls w @ [rq], sleeps := sleeps w @ [valof d]\<rparr>"
      by (auto simp: time_sleep_def split: option.splits)
    have a: "\<forall>i<n. \<exists>e. nt (length (calls w2) + i) rq = Fails e"
    proof (intro allI impI)
      fix i assume "i < n"
      then have "Suc i < Suc n" by simp
      with Suc.prems have "\<exists>e. nt (length (calls w) + Suc i) rq = Fails e" by blast
      then show "\<exists>e. nt (length (calls w2) + i) rq = Fails e" unfolding w2 by simp
    qed
    from Suc.IH [OF a, of "fmul d b" "Some e"] obtain e3 m sl where m: "m \<le> n" and
      r: "retry_loop nt clk rq b n (fmul d b) (Some e) w2 =
            (Inl e3, \<lparr>calls = calls w2 @ replicate m rq, sleeps = sleeps w2 @ sl\<rparr>)"
      by blast
    have "retry_loop nt clk rq b (Suc n) d last_exn w =
            (Inl e3, \<lparr>calls = calls w @ replicate (Suc m) rq, sleeps = sleeps w @ (valof d # sl)\<rparr>)"
      using e Inr r unfolding w2
      by (subst retry_loop.simps(2))
         (simp add: requests_get_def replicate_append_same del: retry_loop.simps)
    moreover have "Suc m \<le> Suc n" using m by simp
    ultimately show ?thesis by blast
  qed
qed

lemma get_with_retry_all_fail_world:
  assumes "\<forall>i<3. \<exists>e. nt (length (calls w) + i)
             \<lparr>rq_url = url, rq_params = params, rq_headers = HEADERS, rq_timeout = timeout\<rparr> = Fails e"
  shows "\<exists>e m sl. m \<le> 3 \<and> get_with_retry nt clk url params timeout 3 b w =
           (Inl e, \<lparr>calls = calls w @ replicate m
                       \<lparr>rq_url = url, rq_params = params, rq_headers = HEADERS, rq_timeout = timeout\<rparr>,
                    sleeps = sleeps w @ sl\<rparr>)"
proof -
  have n: "nat (max 1 3) = 3" by simp
  from retry_loop_all_fail_world [where n = 3 and nt = nt and w = w, OF assms]
  show ?thesis unfolding get_with_retry_def n by blast
qed

lemma chunks_of_nonempty: "chunks_of titles \<noteq> [] \<Longrightarrow> titles \<noteq> []"
  using chunks_of_Nil by auto

text \<open>A chunk whose fetch raises ends the batched lookup, and the seed records are the file list.\<close>

lemma files_section_chunk_failure:
  assumes "seed_loop (case images of Inl e \<Rightarrow> [] | Inr xs \<Rightarrow> take 100 xs) [] []
             = Inr (temp_files, titles)"
    and "chunks_of titles = pre @ chunk # post"
    and "chunk_loop nt clk pre Map.empty w = (Inr bt1, w1)"
    and "join_titles chunk = Inr titles_param"
    and "get_with_retry nt clk ''https://imslp.org/w/api.php'' (imageinfo_params titles_param)
           20 3 default_backoff w1 = (Inl e, w2)"
  shows "files_section nt clk images w = (Inr temp_files, w2)"
proof -
  have "chunk_loop nt clk (chunk # post) bt1 w1 = (Inl e, w2)"
    using assms(4,5) by simp
  then have c: "chunk_loop nt clk (chunks_of titles) Map.empty w = (Inl e, w2)"
    using chunk_loop_append [OF assms(3), of "chunk # post"] assms(2) by simp
  have t: "titles \<noteq> []" using assms(2) chunks_of_nonempty [of titles] by simp
  have b: "batched_phase nt clk titles temp_files w = (temp_files, w2)"
    using c t by (simp add: batched_phase_def)
  show ?thesis
    using assms(1) b by (simp add: files_section_def)
qed

text \<open>
  C1, as the code has it. Whatever happens in the other sections, each section of the
  document is a function of its own reads only. An exception raised while basic info or
  the categories are read, or by the listing of the revisions, is recorded as the string
  \<open><section>_error\<close> holding its message, and the section keeps its empty default; a
  section that raises nothing is stored and has no error key. In the file list:
  \<^item> an exception of the image listing is not recorded: \<open>files\<close> is the empty list and
    there is no \<open>files_error\<close> (line 110);
  \<^item> an exception raised while the seed record of one of the first 100 images is built,
    the records of the images before it built, is recorded as \<open>files_error\<close>, and \<open>files\<close>
    stays empty;
  \<^item> when the seed phase has built its records, there is no \<open>files_error\<close> whatever the
    batched lookup and the reconciliation do, and \<open>files\<close> holds one record per seed
    record, with the same titles: the seed records themselves when there is no title to
    look up or when the batched lookup raises, and otherwise the records as the
    reconciliation loop leaves them, whether it raises or not.
\<close>

theorem sections_isolated:
  "(\<forall>e. basic_info_section pg = Inl e \<longrightarrow>
        md_basic_info (fst (build_metadata nt clk title pg w)) = [] \<and>
        md_basic_info_error (fst (build_metadata nt clk title pg w)) = Some (str_exn e)) \<and>
   (\<forall>d. basic_info_section pg = Inr d \<longrightarrow>
        md_basic_info (fst (build_metadata nt clk title pg w)) = d \<and>
        md_basic_info_error (fst (build_metadata nt clk title pg w)) = None) \<and>
   (\<forall>e. categories_section pg = Inl e \<longrightarrow>
        md_categories (fst (build_metadata nt clk title pg w)) = [] \<and>
        md_categories_error (fst (build_metadata nt clk title pg w)) = Some (str_exn e)) \<and>
   (\<forall>c. categories_section pg = Inr c \<longrightarrow>
        md_categories (fst (build_metadata nt clk title pg w)) = c \<and>
        md_categories_error (fst (build_metadata nt clk title pg w)) = None) \<and>
   (\<forall>e. fst (files_section nt clk (pg_images pg) w) = Inl e \<longrightarrow>
        md_files (fst (build_metadata nt clk title pg w)) = [] \<and>
        md_files_error (fst (build_metadata nt clk title pg w)) = Some (str_exn e)) \<and>
   (\<forall>fs. fst (files_section nt clk (pg_images pg) w) = Inr fs \<longrightarrow>
        md_files (fst (build_metadata nt clk title pg w)) = fs \<and>
        md_files_error (fst (build_metadata nt clk title pg w)) = None) \<and>
   (\<forall>e. pg_images pg = Inl e \<longrightarrow>
        md_files (fst (build_metadata nt clk title pg w)) = [] \<and>
        md_files_error (fst (build_metadata nt clk title pg w)) = None) \<and>
   (\<forall>imgs i e. pg_images pg = Inr imgs \<and> i < length imgs \<and> i < 100 \<and>
        seed_file (imgs ! i) = Inl e \<and> (\<forall>j<i. \<exists>r. seed_file (imgs ! j) = Inr r) \<longrightarrow>
        md_files (fst (build_metadata nt clk title pg w)) = [] \<and>
        md_files_error (fst (build_metadata nt clk title pg w)) = Some (str_exn e)) \<and>
   (\<forall>temp_files titles.
        seed_loop (case pg_images pg of Inl e \<Rightarrow> [] | Inr xs \<Rightarrow> take 100 xs) [] []
          = Inr (temp_files, titles) \<longrightarrow>
        md_files_error (fst (build_metadata nt clk title pg w)) = None \<and>
        map f_title (md_files (fst (build_metadata nt clk title pg w)))
          = map f_title temp_files \<and>
        (titles = [] \<longrightarrow> md_files (fst (build_metadata nt clk title pg w)) = temp_files) \<and>
        (\<forall>e w1. titles \<noteq> [] \<and>
             chunk_loop nt clk (chunks_of titles) Map.empty w = (Inl e, w1) \<longrightarrow>
             md_files (fst (build_metadata nt clk title pg w)) = temp_files) \<and>
        (\<forall>bt w1. titles \<noteq> [] \<and>
             chunk_loop nt clk (chunks_of titles) Map.empty w = (Inr bt, w1) \<longrightarrow>
             md_files (fst (build_metadata nt clk title pg w))
               = fst (merge_loop bt temp_files))) \<and>
   (\<forall>e. pg_revisions pg = Inl e \<longrightarrow>
        md_revision_history (fst (build_metadata nt clk title pg w)) = [] \<and>
        md_revision_history_error (fst (build_metadata nt clk title pg w)) = Some (str_exn e)) \<and>
   (\<forall>revs. pg_revisions pg = Inr revs \<longrightarrow>
        md_revision_history (fst (build_metadata nt clk title pg w))
          = fst (revision_loop (take 5 revs) []) \<and>
        md_revision_history_error (fst (build_metadata nt clk title pg w))
          = map_option str_exn (snd (revision_loop (take 5 revs) [])))"
proof -
  let ?md = "fst (build_metadata nt clk title pg w)"
  have r: "md_revision_history ?md =
             fst (case pg_revisions pg of
                Inl e \<Rightarrow> ([], Some (str_exn e))
              | Inr revs \<Rightarrow> (case revision_loop (take 5 revs) [] of
                              (rh, r) \<Rightarrow> (rh, map_option str_exn r)))"
    "md_revision_history_error ?md =
             snd (case pg_revisions pg of
                Inl e \<Rightarrow> ([], Some (str_exn e))
              | Inr revs \<Rightarrow> (case revision_loop (take 5 revs) [] of
                              (rh, r) \<Rightarrow> (rh, map_option str_exn r)))"
    using build_revision_history [of nt clk title pg w, symmetric] by simp_all
  have seed_fail: "md_files ?md = [] \<and> md_files_error ?md = Some (str_exn e)"
    if "pg_images pg = Inr imgs" "i < length imgs" "i < 100" "seed_file (imgs ! i) = Inl e"
       "\<forall>j<i. \<exists>r. seed_file (imgs ! j) = Inr r" for imgs i e
  proof -
    have "seed_loop (take 100 imgs) [] [] = Inl e"
      using that by (intro seed_loop_first_failure [where i = i]) simp_all
    then have "files_section nt clk (pg_images pg) w = (Inl e, w)"
      using that(1) files_section_seed_failure [of "pg_images pg" e nt clk w] by simp
    then show ?thesis by (simp add: build_files)
  qed
  have seeded: "md_files_error ?md = None \<and>
        map f_title (md_files ?md) = map f_title temp_files \<and>
        (titles = [] \<longrightarrow> md_files ?md = temp_files) \<and>
        (\<forall>e w1. titles \<noteq> [] \<and>
             chunk_loop nt clk (chunks_of titles) Map.empty w = (Inl e, w1) \<longrightarrow>
             md_files ?md = temp_files) \<and>
        (\<forall>bt w1. titles \<noteq> [] \<and>
             chunk_loop nt clk (chunks_of titles) Map.empty w = (Inr bt, w1) \<longrightarrow>
             md_files ?md = fst (merge_loop bt temp_files))"
    if "seed_loop (case pg_images pg of Inl e \<Rightarrow> [] | Inr xs \<Rightarrow> take 100 xs) [] []
          = Inr (temp_files, titles)" for temp_files titles
  proof -
    have f: "fst (files_section nt clk (pg_images pg) w)
               = Inr (fst (batched_phase nt clk titles temp_files w))"
      using files_section_seeded [OF that] .
    have m: "md_files ?md = fst (batched_phase nt clk titles temp_files w)"
      "md_files_error ?md = None"
      using f by (simp_all add: build_files)
    show ?thesis
      unfolding m by (simp add: batched_phase_titles) (auto simp: batched_phase_def)
  qed
  show ?thesis
    apply (intro conjI)
    subgoal by (simp add: build_basic_info)
    subgoal by (simp add: build_basic_info)
    subgoal by (simp add: build_categories)
    subgoal by (simp add: build_categories)
    subgoal by (simp add: build_files)
    subgoal by (simp add: build_files)
    subgoal by (simp add: build_files files_section_images_fail)
    subgoal using seed_fail by blast
    subgoal using seeded by blast
    subgoal by (simp add: r)
    subgoal by (simp add: r split: prod.splits)
    done
qed


text \<open>
  Witness of C1, scenario C: the category listing raises \<open>boom\<close>; \<open>categories\<close> is empty
  with \<open>categories_error\<close> \<open>boom\<close>, and \<open>files\<close> and \<open>revision_history\<close> are populated.
  And a page whose only image raises \<open>bad image\<close> when its name is read: \<open>files\<close> is
  empty with \<open>files_error\<close> \<open>bad image\<close>.
\<close>

theorem sections_isolated_witness:
  "categories_section (ex_page (Inl (Exception ''boom'')) (Inr [ex_image ''http://imslp.org/x.pdf'']))
     = Inl (Exception ''boom'')
   \<and> md_categories (fst (build_metadata (ex_net_pages []) ex_clock ''Symphony No.5''
        (ex_page (Inl (Exception ''boom'')) (Inr [ex_image ''http://imslp.org/x.pdf''])) ex_world)) = []
   \<and> md_categories_error (fst (build_metadata (ex_net_pages []) ex_clock ''Symphony No.5''
        (ex_page (Inl (Exception ''boom'')) (Inr [ex_image ''http://imslp.org/x.pdf''])) ex_world))
       = Some ''boom''
   \<and> fst (files_section (ex_net_pages []) ex_clock (pg_images
        (ex_page (Inl (Exception ''boom'')) (Inr [ex_image ''http://imslp.org/x.pdf'']))) ex_world)
       = Inr [ex_seeded]
   \<and> md_files (fst (build_metadata (ex_net_pages []) ex_clock ''Symphony No.5''
        (ex_page (Inl (Exception ''boom'')) (Inr [ex_image ''http://imslp.org/x.pdf''])) ex_world))
       = [ex_seeded]
   \<and> md_files_error (fst (build_metadata (ex_net_pages []) ex_clock ''Symphony No.5''
        (ex_page (Inl (Exception ''boom'')) (Inr [ex_image ''http://imslp.org/x.pdf''])) ex_world))
       = None
   \<and> md_revision_history (fst (build_metadata (ex_net_pages []) ex_clock ''Symphony No.5''
        (ex_page (Inl (Exception ''boom'')) (Inr [ex_image ''http://imslp.org/x.pdf''])) ex_world))
       = [\<lparr>revid = PInt 7, rev_user = PStr ''Editor'', rev_timestamp = PNone,
           rev_comment = PNone\<rparr>]
   \<and> seed_file \<lparr>img_imageinfo = Inr (PDict []), img_page_title = Inr (PStr ''X.pdf''),
                 img_name = Inl (Exception ''bad image'')\<rparr> = Inl (Exception ''bad image'')
   \<and> md_files (fst (build_metadata (ex_net_pages []) ex_clock ''Symphony No.5''
        (ex_page (Inr []) (Inr [\<lparr>img_imageinfo = Inr (PDict []),
           img_page_title = Inr (PStr ''X.pdf''), img_name = Inl (Exception ''bad image'')\<rparr>]))
        ex_world)) = []
   \<and> md_files_error (fst (build_metadata (ex_net_pages []) ex_clock ''Symphony No.5''
        (ex_page (Inr []) (Inr [\<lparr>img_imageinfo = Inr (PDict []),
           img_page_title = Inr (PStr ''X.pdf''), img_name = Inl (Exception ''bad image'')\<rparr>]))
        ex_world)) = Some ''bad image''"
proof -
  let ?pg = "ex_page (Inl (Exception ''boom'')) (Inr [ex_image ''http://imslp.org/x.pdf''])"
  let ?md = "fst (build_metadata (ex_net_pages []) ex_clock ''Symphony No.5'' ?pg ex_world)"
  note s = sections_isolated [of ?pg "ex_net_pages []" ex_clock "''Symphony No.5''" ex_world]
  have h1: "categories_section ?pg = Inl (Exception ''boom'')"
    by (simp add: categories_section_def ex_page_def)
  have c1: "md_categories ?md = [] \<and> md_categories_error ?md = Some ''boom''"
    using s h1 by simp
  have h2: "fst (files_section (ex_net_pages []) ex_clock (pg_images ?pg) ex_world) = Inr [ex_seeded]"
    by code_simp
  have c2: "md_files ?md = [ex_seeded] \<and> md_files_error ?md = None"
    using s h2 by simp
  have h3: "pg_revisions ?pg = Inr [PDict [(''revid'', PInt 7), (''user'', PStr ''Editor'')]]"
    by (simp add: ex_page_def)
  have c3: "md_revision_history ?md
       = [\<lparr>revid = PInt 7, rev_user = PStr ''Editor'', rev_timestamp = PNone,
           rev_comment = PNone\<rparr>]"
    using s h3 by (simp add: revision_entry_def dict_get_def)
  let ?img = "\<lparr>img_imageinfo = Inr (PDict []), img_page_title = Inr (PStr ''X.pdf''),
                 img_name = Inl (Exception ''bad image'')\<rparr>"
  let ?pg2 = "ex_page (Inr []) (Inr [?img])"
  let ?md2 = "fst (build_metadata (ex_net_pages []) ex_clock ''Symphony No.5'' ?pg2 ex_world)"
  note s2 = sections_isolated [of ?pg2 "ex_net_pages []" ex_clock "''Symphony No.5''" ex_world]
  have h4: "seed_file ?img = Inl (Exception ''bad image'')"
    by (simp add: seed_eval)
  have h5: "pg_images ?pg2 = Inr [?img]" by (simp add: ex_page_def)
  have "pg_images ?pg2 = Inr [?img] \<and> 0 < length [?img] \<and> (0::nat) < 100 \<and>
        seed_file ([?img] ! 0) = Inl (Exception ''bad image'') \<and>
        (\<forall>j<0. \<exists>r. seed_file ([?img] ! j) = Inr r)"
    using h4 h5 by simp
  with s2 have c4: "md_files ?md2 = [] \<and> md_files_error ?md2 = Some (str_exn (Exception ''bad image''))"
    by blast
  then have c5: "md_files ?md2 = [] \<and> md_files_error ?md2 = Some ''bad image''" by simp
  from h1 c1 h2 c2 c3 h4 c5 show ?thesis by blast
qed

text \<open>
  Counterexample to C1 as stated. The image listing raises while the file list is
  populated: \<open>files\<close> is empty and the document records no \<open>files_error\<close>. And the
  transport is down while the batched lookup fetches the only chunk: \<open>files\<close> holds the
  seed record and the document records no \<open>files_error\<close>.
\<close>

theorem sections_isolated_counterexample:
  "pg_images (ex_page (Inr []) (Inl (Exception ''listing failed'')))
     = Inl (Exception ''listing failed'')
   \<and> md_files (fst (build_metadata (ex_net_pages []) ex_clock ''Symphony No.5''
             (ex_page (Inr []) (Inl (Exception ''listing failed''))) ex_world)) = []
   \<and> md_files_error (fst (build_metadata (ex_net_pages []) ex_clock ''Symphony No.5''
             (ex_page (Inr []) (Inl (Exception ''listing failed''))) ex_world)) = None
   \<and> (\<exists>e w1. chunk_loop ex_net_down ex_clock (chunks_of [PStr ''File:X.pdf'']) Map.empty
                ex_world = (Inl e, w1))
   \<and> md_files (fst (build_metadata ex_net_down ex_clock ''Symphony No.5''
             (ex_page (Inr []) (Inr [ex_image ''http://imslp.org/x.pdf''])) ex_world))
       = [ex_seeded]
   \<and> md_files_error (fst (build_metadata ex_net_down ex_clock ''Symphony No.5''
             (ex_page (Inr []) (Inr [ex_image ''http://imslp.org/x.pdf''])) ex_world)) = None"
proof -
  let ?pg = "ex_page (Inr []) (Inr [ex_image ''http://imslp.org/x.pdf''])"
  have a: "pg_images (ex_page (Inr []) (Inl (Exception ''listing failed'')))
             = Inl (Exception ''listing failed'')
     \<and> md_files (fst (build_metadata (ex_net_pages []) ex_clock ''Symphony No.5''
             (ex_page (Inr []) (Inl (Exception ''listing failed''))) ex_world)) = []
     \<and> md_files_error (fst (build_metadata (ex_net_pages []) ex_clock ''Symphony No.5''
             (ex_page (Inr []) (Inl (Exception ''listing failed''))) ex_world)) = None"
    by (simp add: build_files files_section_images_fail ex_page_def)
  have n: "\<forall>i<3. \<exists>e. ex_net_down (length (calls ex_world) + i)
             \<lparr>rq_url = ''https://imslp.org/w/api.php'',
              rq_params = imageinfo_params ''File:X.pdf'', rq_headers = HEADERS,
              rq_timeout = 20\<rparr> = Fails e"
    by (simp add: ex_net_down_def)
  from get_with_retry_all_fail_raises [where nt = ex_net_down and w = ex_world
      and clk = ex_clock and b = default_backoff and url = "''https://imslp.org/w/api.php''"
      and params = "imageinfo_params ''File:X.pdf''" and timeout = 20] n
  obtain e1 w1 where g1: "get_with_retry ex_net_down ex_clock ''https://imslp.org/w/api.php''
             (imageinfo_params ''File:X.pdf'') 20 3 default_backoff ex_world
           = (Inl e1, w1)" by blast
  have ch: "chunks_of [PStr ''File:X.pdf''] = [[PStr ''File:X.pdf'']]"
    by (simp add: chunks_of_def py_range_def)
  have cl: "chunk_loop ex_net_down ex_clock (chunks_of [PStr ''File:X.pdf'']) Map.empty ex_world
              = (Inl e1, w1)"
    unfolding ch using g1 by simp
  have h1: "seed_loop (case pg_images ?pg of Inl e \<Rightarrow> [] | Inr xs \<Rightarrow> take 100 xs) [] []
     = Inr ([ex_seeded], [PStr ''File:X.pdf''])"
    by (simp add: ex_page_def seed_eval)
  have h2: "chunks_of [PStr ''File:X.pdf''] = [] @ [PStr ''File:X.pdf''] # []"
    by (simp add: chunks_of_def py_range_def)
  have h3: "chunk_loop ex_net_down ex_clock [] Map.empty ex_world = (Inr Map.empty, ex_world)"
    by simp
  have h4: "join_titles [PStr ''File:X.pdf''] = Inr ''File:X.pdf''" by simp
  have f: "files_section ex_net_down ex_clock (pg_images ?pg) ex_world = (Inr [ex_seeded], w1)"
    using files_section_chunk_failure [OF h1 h2 h3 h4 g1] .
  have b: "md_files (fst (build_metadata ex_net_down ex_clock ''Symphony No.5'' ?pg ex_world))
             = [ex_seeded]
     \<and> md_files_error (fst (build_metadata ex_net_down ex_clock ''Symphony No.5'' ?pg ex_world))
             = None"
    using f by (simp add: build_files)
  from a cl b show ?thesis by blast
qed

text \<open>
  C10: the seed phase has built \<open>temp_files\<close>; the chunks before \<open>chunk\<close> have been
  fetched and parsed; the query of \<open>chunk\<close> fails at the transport level on each of its
  three attempts. Then the document holds exactly the seed records as \<open>files\<close> and has no
  \<open>files_error\<close>, and nothing happens after the failing fetch: the only effects after
  the chunks before are at most three GETs of that query and the sleeps between them,
  so no later chunk is asked. When the operating system sleeps the three delays, these
  are the three attempts and the sleeps of 1, 1.5 and 2.25 seconds.
\<close>

theorem chunk_fetch_failure_keeps_seed:
  assumes "seed_loop (case pg_images pg of Inl e \<Rightarrow> [] | Inr xs \<Rightarrow> take 100 xs) [] []
             = Inr (temp_files, titles)"
    and "chunks_of titles = pre @ chunk # post"
    and "chunk_loop nt clk pre Map.empty w = (Inr bt1, w1)"
    and "join_titles chunk = Inr titles_param"
    and "rq = \<lparr>rq_url = ''https://imslp.org/w/api.php'',
               rq_params = imageinfo_params titles_param, rq_headers = HEADERS,
               rq_timeout = 20\<rparr>"
    and "\<forall>i<3. \<exists>e. nt (length (calls w1) + i) rq = Fails e"
  shows "md_files (fst (build_metadata nt clk title pg w)) = temp_files \<and>
         md_files_error (fst (build_metadata nt clk title pg w)) = None \<and>
         (\<exists>m sl. m \<le> 3 \<and> snd (build_metadata nt clk title pg w) =
            \<lparr>calls = calls w1 @ replicate m rq, sleeps = sleeps w1 @ sl\<rparr>) \<and>
         (clk (length (sleeps w1)) 1 = None \<and> clk (length (sleeps w1) + 1) (3 / 2) = None \<and>
          clk (length (sleeps w1) + 2) (9 / 4) = None \<longrightarrow>
            snd (build_metadata nt clk title pg w) =
              \<lparr>calls = calls w1 @ replicate 3 rq, sleeps = sleeps w1 @ [1, 3 / 2, 9 / 4]\<rparr>)"
proof -
  from get_with_retry_all_fail_world [where nt = nt and w = w1 and clk = clk
      and url = "''https://imslp.org/w/api.php''" and params = "imageinfo_params titles_param"
      and timeout = 20 and b = default_backoff] assms(6) [unfolded assms(5)]
  obtain e m sl where m: "m \<le> 3" and
    g: "get_with_retry nt clk ''https://imslp.org/w/api.php'' (imageinfo_params titles_param)
          20 3 default_backoff w1 =
        (Inl e, \<lparr>calls = calls w1 @ replicate m rq, sleeps = sleeps w1 @ sl\<rparr>)"
    unfolding assms(5) by blast
  have f: "files_section nt clk (pg_images pg) w =
             (Inr temp_files, \<lparr>calls = calls w1 @ replicate m rq, sleeps = sleeps w1 @ sl\<rparr>)"
    using files_section_chunk_failure [OF assms(1,2,3,4) g] .
  have fin: "snd (build_metadata nt clk title pg w) =
              \<lparr>calls = calls w1 @ replicate 3 rq, sleeps = sleeps w1 @ [1, 3 / 2, 9 / 4]\<rparr>"
    if c: "clk (length (sleeps w1)) 1 = None" "clk (length (sleeps w1) + 1) (3 / 2) = None"
          "clk (length (sleeps w1) + 2) (9 / 4) = None"
  proof -
    from get_with_retry_three_fail [where nt = nt and w = w1 and clk = clk
        and url = "''https://imslp.org/w/api.php''" and params = "imageinfo_params titles_param"
        and timeout = 20, OF assms(6) [unfolded assms(5)] c]
    obtain e3 where
      g3: "get_with_retry nt clk ''https://imslp.org/w/api.php'' (imageinfo_params titles_param)
            20 3 default_backoff w1 =
          (Inl e3, \<lparr>calls = calls w1 @ replicate 3 rq, sleeps = sleeps w1 @ [1, 3 / 2, 9 / 4]\<rparr>)"
      unfolding assms(5) by blast
    show ?thesis
      using files_section_chunk_failure [OF assms(1,2,3,4) g3]
      by (simp add: build_metadata_snd)
  qed
  have "\<exists>m sl. m \<le> 3 \<and> snd (build_metadata nt clk title pg w) =
            \<lparr>calls = calls w1 @ replicate m rq, sleeps = sleeps w1 @ sl\<rparr>"
    using m f by (auto simp: build_metadata_snd)
  then show ?thesis
    using f fin by (simp add: build_files)
qed

text \<open>Witness of C10: one image, one chunk, the transport down.\<close>

theorem chunk_fetch_failure_keeps_seed_witness:
  "seed_loop (case pg_images (ex_page (Inr []) (Inr [ex_image ''http://imslp.org/x.pdf''])) of
                Inl e \<Rightarrow> [] | Inr xs \<Rightarrow> take 100 xs) [] []
     = Inr ([ex_seeded], [PStr ''File:X.pdf''])
   \<and> chunks_of [PStr ''File:X.pdf''] = [] @ [PStr ''File:X.pdf''] # []
   \<and> chunk_loop ex_net_down ex_clock [] Map.empty ex_world = (Inr Map.empty, ex_world)
   \<and> join_titles [PStr ''File:X.pdf''] = Inr ''File:X.pdf''
   \<and> ex_net_down (length (calls ex_world) + 2)
        \<lparr>rq_url = ''https://imslp.org/w/api.php'',
         rq_params = imageinfo_params ''File:X.pdf'', rq_headers = HEADERS,
         rq_timeout = 20\<rparr> = Fails (Exception ''connection refused'')
   \<and> ex_clock (length (sleeps ex_world) + 2) (9 / 4) = None
   \<and> md_files (fst (build_metadata ex_net_down ex_clock ''Symphony No.5''
        (ex_page (Inr []) (Inr [ex_image ''http://imslp.org/x.pdf''])) ex_world)) = [ex_seeded]
   \<and> md_files_error (fst (build_metadata ex_net_down ex_clock ''Symphony No.5''
        (ex_page (Inr []) (Inr [ex_image ''http://imslp.org/x.pdf''])) ex_world)) = None
   \<and> snd (build_metadata ex_net_down ex_clock ''Symphony No.5''
        (ex_page (Inr []) (Inr [ex_image ''http://imslp.org/x.pdf''])) ex_world)
       = \<lparr>calls = calls ex_world @ replicate 3
            \<lparr>rq_url = ''https://imslp.org/w/api.php'',
             rq_params = imageinfo_params ''File:X.pdf'', rq_headers = HEADERS,
             rq_timeout = 20\<rparr>,
          sleeps = sleeps ex_world @ [1, 3 / 2, 9 / 4]\<rparr>"
proof -
  let ?pg = "ex_page (Inr []) (Inr [ex_image ''http://imslp.org/x.pdf''])"
  let ?rq = "\<lparr>rq_url = ''https://imslp.org/w/api.php'',
         rq_params = imageinfo_params ''File:X.pdf'', rq_headers = HEADERS,
         rq_timeout = 20\<rparr>"
  have h1: "seed_loop (case pg_images ?pg of Inl e \<Rightarrow> [] | Inr xs \<Rightarrow> take 100 xs) [] []
     = Inr ([ex_seeded], [PStr ''File:X.pdf''])"
    by (simp add: ex_page_def seed_eval)
  have h2: "chunks_of [PStr ''File:X.pdf''] = [] @ [PStr ''File:X.pdf''] # []"
    by (simp add: chunks_of_def py_range_def)
  have h3: "chunk_loop ex_net_down ex_clock [] Map.empty ex_world = (Inr Map.empty, ex_world)"
    by simp
  have h4: "join_titles [PStr ''File:X.pdf''] = Inr ''File:X.pdf''" by simp
  have h6: "\<forall>i<3. \<exists>e. ex_net_down (length (calls ex_world) + i) ?rq = Fails e"
    by (simp add: ex_net_down_def)
  have h6': "ex_net_down (length (calls ex_world) + 2) ?rq = Fails (Exception ''connection refused'')"
    by (simp add: ex_net_down_def)
  have h7: "ex_clock (length (sleeps ex_world)) 1 = None"
    "ex_clock (length (sleeps ex_world) + 1) (3 / 2) = None"
    "ex_clock (length (sleeps ex_world) + 2) (9 / 4) = None"
    by (simp_all add: ex_clock_def)
  note c = chunk_fetch_failure_keeps_seed [where pg = ?pg and nt = ex_net_down
      and clk = ex_clock and w = ex_world and rq = ?rq and title = "''Symphony No.5''",
      OF h1 h2 h3 h4 refl h6]
  from h1 h2 h3 h4 h6' h7 c show ?thesis by blast
qed

section \<open>The claims on extract_title\<close>

lemma split_once_http:
  "split_once ''/wiki/'' (''http://imslp.org/wiki/'' @ seg) = [''http://imslp.org'', seg]"
  by (simp add: startswith_def)

lemma split_once_https:
  "split_once ''/wiki/'' (''https://imslp.org/wiki/'' @ seg) = [''https://imslp.org'', seg]"
  by (simp add: startswith_def)

text \<open>
  C6: for every input that begins with one of the two permalink prefixes of line 31,
  \<open>extract_title\<close> returns the unquoted segment after the prefix and leaves the state as
  it is: no GET is issued and nothing sleeps.
\<close>

theorem extract_title_permalink:
  assumes "startswith target ''http://imslp.org/wiki/''
           \<or> startswith target ''https://imslp.org/wiki/''"
  shows "\<exists>seg. (target = ''http://imslp.org/wiki/'' @ seg
                \<or> target = ''https://imslp.org/wiki/'' @ seg)
              \<and> extract_title dec digit nt clk target w = (Inr (unquote dec seg), w)"
  using assms
proof
  assume a: "startswith target ''http://imslp.org/wiki/''"
  let ?seg = "drop (length ''http://imslp.org/wiki/'') target"
  have t: "target = ''http://imslp.org/wiki/'' @ ?seg" using a by (rule startswith_append)
  have "index1 (split_once ''/wiki/'' target) = Inr ?seg"
    by (subst t) (simp only: split_once_http index1_def list.case)
  then have "extract_title dec digit nt clk target w = (Inr (unquote dec ?seg), w)"
    using a by (simp add: extract_title_def)
  with t show ?thesis by blast
next
  assume a: "startswith target ''https://imslp.org/wiki/''"
  let ?seg = "drop (length ''https://imslp.org/wiki/'') target"
  have t: "target = ''https://imslp.org/wiki/'' @ ?seg" using a by (rule startswith_append)
  have "index1 (split_once ''/wiki/'' target) = Inr ?seg"
    by (subst t) (simp only: split_once_https index1_def list.case)
  then have "extract_title dec digit nt clk target w = (Inr (unquote dec ?seg), w)"
    using a by (simp add: extract_title_def)
  with t show ?thesis by blast
qed

text \<open>
  Witness of C6, the input of scenario A: the segment has no escape and is returned as
  it is, underscores included.
\<close>

theorem extract_title_permalink_witness:
  "startswith ''https://imslp.org/wiki/Ave_Maria_(Bach-Gounod)'' ''https://imslp.org/wiki/''
   \<and> extract_title (\<lambda>s. s) ex_digit ex_net_down ex_clock
        ''https://imslp.org/wiki/Ave_Maria_(Bach-Gounod)'' ex_world
       = (Inr ''Ave_Maria_(Bach-Gounod)'', ex_world)"
proof -
  have h: "startswith ''https://imslp.org/wiki/Ave_Maria_(Bach-Gounod)'' ''https://imslp.org/wiki/''"
    by (simp add: startswith_def)
  from extract_title_permalink [OF disjI2, OF h, of "\<lambda>s. s" ex_digit ex_net_down ex_clock ex_world]
  obtain seg where
    s: "''https://imslp.org/wiki/Ave_Maria_(Bach-Gounod)'' = ''http://imslp.org/wiki/'' @ seg
        \<or> ''https://imslp.org/wiki/Ave_Maria_(Bach-Gounod)'' = ''https://imslp.org/wiki/'' @ seg"
    and e: "extract_title (\<lambda>s. s) ex_digit ex_net_down ex_clock
              ''https://imslp.org/wiki/Ave_Maria_(Bach-Gounod)''
              ex_world = (Inr (unquote (\<lambda>s. s) seg), ex_world)"
    by blast
  from s have "seg = ''Ave_Maria_(Bach-Gounod)''" by simp
  with e have "extract_title (\<lambda>s. s) ex_digit ex_net_down ex_clock
              ''https://imslp.org/wiki/Ave_Maria_(Bach-Gounod)''
              ex_world = (Inr ''Ave_Maria_(Bach-Gounod)'', ex_world)"
    by (simp add: unquote_def)
  with h show ?thesis by blast
qed














end
